theory Spec2Isabelle
  imports
    Main
    "HOL-Library.AList"
    "HOL-Library.Char_ord"
    "HOL-Library.List_Lexorder"
begin

section \<open>Python values and exceptions\<close>

text \<open>
  The code is dynamically typed. The values that reach the form fields and the
  dashboard utilities are \<^verbatim>\<open>None\<close>, integers and strings; these are the values of
  \<open>pyval\<close>. On them Python's \<^verbatim>\<open>==\<close> is HOL equality.
\<close>

datatype pyval = PNone | PInt (the_int: int) | PStr (the_str: string)

text \<open>Truth value of an object, as tested by \<^verbatim>\<open>if value\<close> and \<^verbatim>\<open>value if value else ...\<close>.\<close>

fun py_bool :: "pyval \<Rightarrow> bool" where
  "py_bool PNone = False"
| "py_bool (PInt i) = (i \<noteq> 0)"
| "py_bool (PStr s) = (s \<noteq> [])"

text \<open>\<^verbatim>\<open>str(x)\<close>: decimal digits for an integer, \<^verbatim>\<open>'None'\<close> for \<^verbatim>\<open>None\<close>, a string is itself.\<close>

fun str_nat :: "nat \<Rightarrow> string" where
  "str_nat n =
     (if n < 10 then [''0123456789'' ! n]
      else str_nat (n div 10) @ [''0123456789'' ! (n mod 10)])"

declare str_nat.simps [simp del]

definition str_int :: "int \<Rightarrow> string" where
  "str_int i = (if i < 0 then CHR ''-'' # str_nat (nat (- i)) else str_nat (nat i))"

fun py_str :: "pyval \<Rightarrow> string" where
  "py_str PNone = ''None''"
| "py_str (PInt i) = str_int i"
| "py_str (PStr s) = s"

text \<open>
  The exceptions the code raises, by class, with the data their messages carry.
  The specification's names: \<open>ValidationError\<close> is \<open>ValueError (InvalidDateFormat v)\<close>,
  \<open>ValueNotFoundError\<close> is \<open>ValueError (FailedToSelect v name available)\<close>,
  \<open>InvalidFieldError\<close> is \<open>ValueError FieldMustHaveName\<close>, \<open>ShapeError\<close> is a
  \<open>ValueError\<close> of the utilities, and \<open>UnknownFieldError\<close> is \<open>KeyError name\<close>.
\<close>

datatype message =
    InvalidDateFormat pyval
  | FailedToSelect pyval "string option" "pyval list"
  | FieldMustHaveName
  | ExpectedListOfDicts
  | RowsSameKeys
  | ExpectedDictCgiValues
  | ExpectedListKeys

datatype exn =
    ValueError message
  | KeyError string
  | TypeError
  | AttributeError

section \<open>Option\<close>

record Option =
  o_value :: pyval
  is_selected :: bool

definition default_value :: string where
  "default_value = ''ANY''"

section \<open>DateSelector\<close>

definition date_format :: string where
  "date_format = ''%Y-%m-%d''"

text \<open>
  \<^verbatim>\<open>datetime.strptime(s, "%Y-%m-%d")\<close> belongs to the standard library. The field only
  asks whether the call returns or raises, so the operations below take that test as
  the parameter \<open>parses\<close> (on any value: a non-string makes the call raise). The
  function \<open>strptime_Ymd\<close> is its instance for ASCII strings: the library matches
  \<^verbatim>\<open>(\d\d\d\d)-(1[0-2]|0[1-9]|[1-9])-(3[0-1]|[1-2]\d|0[1-9]|[1-9]| [1-9])\<close>
  against the whole string and then builds the date, which fails for year 0 and for a
  day the month does not have.
\<close>

definition digit_of :: "char \<Rightarrow> nat option" where
  "digit_of c =
     map_of [(CHR ''0'', 0), (CHR ''1'', 1), (CHR ''2'', 2), (CHR ''3'', 3), (CHR ''4'', 4),
             (CHR ''5'', 5), (CHR ''6'', 6), (CHR ''7'', 7), (CHR ''8'', 8), (CHR ''9'', 9)] c"

fun match_Y :: "string \<Rightarrow> nat option" where
  "match_Y [a, b, c, d] =
     (case (digit_of a, digit_of b, digit_of c, digit_of d) of
        (Some i, Some j, Some k, Some l) \<Rightarrow> Some (1000 * i + 100 * j + 10 * k + l)
      | _ \<Rightarrow> None)"
| "match_Y _ = None"

fun match_m :: "string \<Rightarrow> nat option" where
  "match_m [a] = (case digit_of a of Some i \<Rightarrow> if 1 \<le> i then Some i else None | None \<Rightarrow> None)"
| "match_m [a, b] =
     (case (digit_of a, digit_of b) of
        (Some i, Some j) \<Rightarrow>
          if i = 1 \<and> j \<le> 2 then Some (10 + j)
          else if i = 0 \<and> 1 \<le> j then Some j
          else None
      | _ \<Rightarrow> None)"
| "match_m _ = None"

fun match_d :: "string \<Rightarrow> nat option" where
  "match_d [a] = (case digit_of a of Some i \<Rightarrow> if 1 \<le> i then Some i else None | None \<Rightarrow> None)"
| "match_d [a, b] =
     (case (digit_of a, digit_of b) of
        (Some i, Some j) \<Rightarrow>
          if i = 3 \<and> j \<le> 1 then Some (30 + j)
          else if 1 \<le> i \<and> i \<le> 2 then Some (10 * i + j)
          else if i = 0 \<and> 1 \<le> j then Some j
          else None
      | (None, Some j) \<Rightarrow> if a = CHR '' '' \<and> 1 \<le> j then Some j else None
      | _ \<Rightarrow> None)"
| "match_d _ = None"

definition is_leap :: "nat \<Rightarrow> bool" where
  "is_leap y = (y mod 4 = 0 \<and> (y mod 100 \<noteq> 0 \<or> y mod 400 = 0))"

definition days_in_month :: "nat \<Rightarrow> nat \<Rightarrow> nat" where
  "days_in_month y m =
     (if m = 2 then (if is_leap y then 29 else 28)
      else if m \<in> {4, 6, 9, 11} then 30 else 31)"

definition valid_date :: "nat \<Rightarrow> nat \<Rightarrow> nat \<Rightarrow> bool" where
  "valid_date y m d = (1 \<le> y \<and> 1 \<le> m \<and> m \<le> 12 \<and> 1 \<le> d \<and> d \<le> days_in_month y m)"

definition strptime_Ymd_string :: "string \<Rightarrow> bool" where
  "strptime_Ymd_string s =
     (let rest = drop 5 s;
          ms = takeWhile (\<lambda>c. c \<noteq> CHR ''-'') rest;
          ds = drop (Suc (length ms)) rest
      in 5 \<le> length s \<and> s ! 4 = CHR ''-'' \<and> length ms < length rest \<and>
         (case (match_Y (take 4 s), match_m ms, match_d ds) of
            (Some y, Some m, Some d) \<Rightarrow> valid_date y m d
          | _ \<Rightarrow> False))"

fun strptime_Ymd :: "pyval \<Rightarrow> bool" where
  "strptime_Ymd (PStr s) = strptime_Ymd_string s"
| "strptime_Ymd _ = False"

text \<open>
  The object: \<open>name\<close> and \<open>_value\<close> of \<^verbatim>\<open>FormField\<close>, and \<open>label_name\<close>.
\<close>

record DateSelector =
  ds_name :: "string option"
  ds_value :: pyval
  ds_label_name :: string

text \<open>\<^verbatim>\<open>name.replace("_", " ")\<close>\<close>

definition replace_underscores :: "string \<Rightarrow> string" where
  "replace_underscores s = map (\<lambda>c. if c = CHR ''_'' then CHR '' '' else c) s"

text \<open>
  \<^verbatim>\<open>DateSelector.__init__(name, label_name, value)\<close>. \<open>today\<close> is
  \<^verbatim>\<open>dt.today().strftime(self.date_format)\<close>, read from the clock. The value goes to
  \<^verbatim>\<open>FormField.__init__\<close>, which assigns \<open>_value\<close> directly. A falsy \<open>label_name\<close>
  with \<open>name = None\<close> makes \<^verbatim>\<open>name.replace\<close> raise \<open>AttributeError\<close>.
\<close>

definition DateSelector_init ::
  "string \<Rightarrow> string option \<Rightarrow> string option \<Rightarrow> pyval \<Rightarrow> exn + DateSelector" where
  "DateSelector_init today name label_name val =
     (let v = (if py_bool val then val else PStr today) in
      case label_name of
        Some l \<Rightarrow>
          if l \<noteq> [] then Inr \<lparr>ds_name = name, ds_value = v, ds_label_name = l\<rparr>
          else (case name of
                  None \<Rightarrow> Inl AttributeError
                | Some n \<Rightarrow> Inr \<lparr>ds_name = name, ds_value = v,
                                ds_label_name = replace_underscores n\<rparr>)
      | None \<Rightarrow>
          (case name of
             None \<Rightarrow> Inl AttributeError
           | Some n \<Rightarrow> Inr \<lparr>ds_name = name, ds_value = v,
                           ds_label_name = replace_underscores n\<rparr>))"

text \<open>The \<open>value\<close> property.\<close>

definition DateSelector_value :: "DateSelector \<Rightarrow> pyval" where
  "DateSelector_value d = ds_value d"

text \<open>
  The \<open>value\<close> setter. A setter returns the exception it raised, if any, together
  with the object as it is afterwards: what was assigned before a \<^verbatim>\<open>raise\<close> stays.
\<close>

definition DateSelector_set_value ::
  "(pyval \<Rightarrow> bool) \<Rightarrow> DateSelector \<Rightarrow> pyval \<Rightarrow> exn option \<times> DateSelector" where
  "DateSelector_set_value parses d new_dt_value =
     (if new_dt_value = PNone then (None, d)
      else if parses new_dt_value then (None, d\<lparr>ds_value := new_dt_value\<rparr>)
      else (Some (ValueError (InvalidDateFormat new_dt_value)), d))"

section \<open>Select\<close>

text \<open>
  \<open>_options\<close> is the list of the Option objects the Select owns. \<open>_value\<close> is
  \<^verbatim>\<open>None\<close> or a reference to one of these objects; the reference is the position of
  the object in \<open>_options\<close>, so that a flag set through the list is seen through the
  reference, as with the shared object.
\<close>

record Select =
  sel_name :: "string option"
  sel_label_name :: "string option"
  sel_options :: "Option list"
  sel_value :: "nat option"

text \<open>\<^verbatim>\<open>reset\<close>: every flag cleared, then \<open>_value = None\<close>.\<close>

definition Select_reset :: "Select \<Rightarrow> Select" where
  "Select_reset s =
     s\<lparr>sel_options := map (\<lambda>opt. opt\<lparr>is_selected := False\<rparr>) (sel_options s),
       sel_value := None\<rparr>"

text \<open>
  The \<open>value\<close> property. An Option object is always truthy, so the test
  \<^verbatim>\<open>if self._value\<close> is the test for \<^verbatim>\<open>None\<close>.
\<close>

definition Select_value :: "Select \<Rightarrow> pyval" where
  "Select_value s =
     (case sel_value s of None \<Rightarrow> PNone | Some i \<Rightarrow> o_value (sel_options s ! i))"

text \<open>
  The loop of the setter: the position of the first option with
  \<^verbatim>\<open>str(option.value) == str(opt_val)\<close>, if there is one.
\<close>

fun find_option :: "Option list \<Rightarrow> pyval \<Rightarrow> nat option" where
  "find_option [] opt_val = None"
| "find_option (opt # opts) opt_val =
     (if py_str (o_value opt) = py_str opt_val then Some 0
      else map_option Suc (find_option opts opt_val))"

definition Select_set_value :: "Select \<Rightarrow> pyval \<Rightarrow> exn option \<times> Select" where
  "Select_set_value s opt_val =
     (if opt_val = PNone then (None, s)
      else
        let s1 = Select_reset s in
        case find_option (sel_options s1) opt_val of
          Some i \<Rightarrow>
            (None,
             s1\<lparr>sel_options := (sel_options s1)[i := (sel_options s1 ! i)\<lparr>is_selected := True\<rparr>],
                sel_value := Some i\<rparr>)
        | None \<Rightarrow>
            (Some (ValueError (FailedToSelect opt_val (sel_name s1)
                                 (map o_value (sel_options s1)))),
             s1))"

definition Select_rename :: "Select \<Rightarrow> string option \<Rightarrow> string option \<Rightarrow> Select" where
  "Select_rename s new_label_name new_name =
     s\<lparr>sel_label_name := new_label_name, sel_name := new_name\<rparr>"

text \<open>
  \<^verbatim>\<open>Select.__init__(name, label_name, options, value)\<close>. When the setter raises, the
  constructor raises and no object is returned.
\<close>

definition Select_init ::
  "string option \<Rightarrow> string option \<Rightarrow> pyval list \<Rightarrow> pyval \<Rightarrow> exn + Select" where
  "Select_init name label_name options val =
     (let opts = map (\<lambda>v. \<lparr>o_value = v, is_selected = False\<rparr>) options;
          default_option = \<lparr>o_value = PStr default_value, is_selected = False\<rparr>;
          s = Select_reset \<lparr>sel_name = name, sel_label_name = label_name,
                            sel_options = default_option # opts, sel_value = None\<rparr>
      in case Select_set_value s (if py_bool val then val else o_value default_option) of
           (None, s') \<Rightarrow> Inr s'
         | (Some e, s') \<Rightarrow> Inl e)"

text \<open>The operations of a Select after its construction, and a run of them.\<close>

datatype select_op =
    SetValue pyval
  | Reset
  | Rename "string option" "string option"

fun Select_apply :: "Select \<Rightarrow> select_op \<Rightarrow> Select" where
  "Select_apply s (SetValue v) = snd (Select_set_value s v)"
| "Select_apply s Reset = Select_reset s"
| "Select_apply s (Rename l n) = Select_rename s l n"

definition Select_run :: "Select \<Rightarrow> select_op list \<Rightarrow> Select" where
  "Select_run s ops = foldl Select_apply s ops"

section \<open>FilterForm\<close>

datatype FormField = DateField DateSelector | SelectField Select

fun field_name :: "FormField \<Rightarrow> string option" where
  "field_name (DateField d) = ds_name d"
| "field_name (SelectField s) = sel_name s"

text \<open>\<^verbatim>\<open>field.value\<close> and \<^verbatim>\<open>field.value = v\<close>, dispatched on the class of the field.\<close>

fun field_value :: "FormField \<Rightarrow> pyval" where
  "field_value (DateField d) = DateSelector_value d"
| "field_value (SelectField s) = Select_value s"

fun field_set_value :: "(pyval \<Rightarrow> bool) \<Rightarrow> FormField \<Rightarrow> pyval \<Rightarrow> exn option \<times> FormField" where
  "field_set_value parses (DateField d) v =
     (case DateSelector_set_value parses d v of (e, d') \<Rightarrow> (e, DateField d'))"
| "field_set_value parses (SelectField s) v =
     (case Select_set_value s v of (e, s') \<Rightarrow> (e, SelectField s'))"

record FilterForm =
  ff_fields :: "FormField list"
  ff_action :: string
  ff_cgi_method :: string
  ff_request_method :: string

text \<open>
  \<^verbatim>\<open>field_dict\<close>: the dictionary \<^verbatim>\<open>{field.name: field for field in self._fields}\<close>. A
  later field with the same name replaces an earlier one. The field objects are those
  of \<open>_fields\<close>; the dictionary gives the position of each.
\<close>

fun field_dict_from :: "nat \<Rightarrow> FormField list \<Rightarrow> (string option \<rightharpoonup> nat) \<Rightarrow> (string option \<rightharpoonup> nat)" where
  "field_dict_from i [] m = m"
| "field_dict_from i (f # fs) m = field_dict_from (Suc i) fs (m(field_name f \<mapsto> i))"

definition field_dict :: "FilterForm \<Rightarrow> (string option \<rightharpoonup> nat)" where
  "field_dict form = field_dict_from 0 (ff_fields form) Map.empty"

definition get_field :: "FilterForm \<Rightarrow> string \<Rightarrow> exn + nat" where
  "get_field form name =
     (case field_dict form (Some name) of
        None \<Rightarrow> Inl (KeyError name)
      | Some i \<Rightarrow> Inr i)"

text \<open>\<^verbatim>\<open>__getitem__\<close> and \<^verbatim>\<open>__setitem__\<close>.\<close>

definition getitem :: "FilterForm \<Rightarrow> string \<Rightarrow> exn + pyval" where
  "getitem form name =
     (case get_field form name of
        Inl e \<Rightarrow> Inl e
      | Inr i \<Rightarrow> Inr (field_value (ff_fields form ! i)))"

definition setitem ::
  "(pyval \<Rightarrow> bool) \<Rightarrow> FilterForm \<Rightarrow> string \<Rightarrow> pyval \<Rightarrow> exn option \<times> FilterForm" where
  "setitem parses form name v =
     (case get_field form name of
        Inl e \<Rightarrow> (Some e, form)
      | Inr i \<Rightarrow>
          (case field_set_value parses (ff_fields form ! i) v of
             (e, f') \<Rightarrow> (e, form\<lparr>ff_fields := (ff_fields form)[i := f']\<rparr>)))"

text \<open>
  \<^verbatim>\<open>update(field_values, is_ignore_unknown_fields)\<close>: the items of the dictionary
  in their order. Only a \<open>KeyError\<close> is caught; it is raised again, for this name,
  when the flag is \<^verbatim>\<open>False\<close>.
\<close>

fun update ::
  "(pyval \<Rightarrow> bool) \<Rightarrow> FilterForm \<Rightarrow> (string \<times> pyval) list \<Rightarrow> bool \<Rightarrow> exn option \<times> FilterForm" where
  "update parses form [] is_ignore_unknown_fields = (None, form)"
| "update parses form ((name, v) # field_values) is_ignore_unknown_fields =
     (case setitem parses form name v of
        (None, form') \<Rightarrow> update parses form' field_values is_ignore_unknown_fields
      | (Some (KeyError k), form') \<Rightarrow>
          if is_ignore_unknown_fields = False then (Some (KeyError name), form')
          else update parses form' field_values is_ignore_unknown_fields
      | (Some e, form') \<Rightarrow> (Some e, form'))"

text \<open>
  \<^verbatim>\<open>set_field(field)\<close>: the loop looks for the first field of that name and
  assigns at its position.
\<close>

fun find_name :: "FormField list \<Rightarrow> string option \<Rightarrow> nat option" where
  "find_name [] n = None"
| "find_name (f # fs) n =
     (if field_name f = n then Some 0 else map_option Suc (find_name fs n))"

definition set_field :: "FilterForm \<Rightarrow> FormField \<Rightarrow> exn option \<times> FilterForm" where
  "set_field form field =
     (case field_name field of
        None \<Rightarrow> (Some (ValueError FieldMustHaveName), form)
      | Some n \<Rightarrow>
          (case find_name (ff_fields form) (Some n) of
             Some i \<Rightarrow> (None, form\<lparr>ff_fields := (ff_fields form)[i := field]\<rparr>)
           | None \<Rightarrow> (Some (KeyError n), form)))"

section \<open>Dashboard utilities\<close>

text \<open>
  A dictionary with string keys is the list of its items in insertion order;
  \<^verbatim>\<open>d[k] = v\<close> is \<open>AList.update k v d\<close> and a lookup is \<open>map_of d k\<close>. The items
  of a dictionary have distinct keys.

  The utilities test the class of their arguments with \<^verbatim>\<open>isinstance\<close>. An argument
  is \<open>Instance x\<close> when it is of the class the function expects, and \<open>NotInstance\<close>
  when it is any other object.
\<close>

type_synonym 'v dict = "(string \<times> 'v) list"

datatype 'a checked = NotInstance | Instance 'a

text \<open>
  \<^verbatim>\<open>sorted(xs)\<close>. Integers compare with integers and strings with strings (by code
  point, a proper prefix first); any other comparison raises \<open>TypeError\<close>. A list of
  fewer than two elements is not compared at all.
\<close>

definition py_sorted :: "pyval list \<Rightarrow> exn + pyval list" where
  "py_sorted xs =
     (if length xs \<le> 1 then Inr xs
      else if list_all is_PInt xs then Inr (map PInt (sort (map the_int xs)))
      else if list_all is_PStr xs then Inr (map PStr (sort (map the_str xs)))
      else Inl TypeError)"

text \<open>
  \<^verbatim>\<open>extract_rows_unique_value\<close>. \<open>unique_values\<close> is the \<^verbatim>\<open>defaultdict(set)\<close>; a set is
  a list without repetition, and \<^verbatim>\<open>add\<close> is \<open>List.insert\<close>. The inner loop is
  \<open>add_row\<close>, the loop over the rows is \<open>collect_rows\<close>, and the final comprehension
  is \<open>sorted_items\<close>.
\<close>

fun add_row :: "string list \<Rightarrow> pyval dict \<Rightarrow> (pyval list) dict \<Rightarrow> exn + (pyval list) dict" where
  "add_row [] row unique_values = Inr unique_values"
| "add_row (k # ks) row unique_values =
     (case map_of row k of
        None \<Rightarrow> Inl (KeyError k)
      | Some x \<Rightarrow>
          add_row ks row
            (AList.update k
               (List.insert x (case map_of unique_values k of None \<Rightarrow> [] | Some vs \<Rightarrow> vs))
               unique_values))"

fun collect_rows ::
  "string list \<Rightarrow> pyval dict checked list \<Rightarrow> (pyval list) dict \<Rightarrow> exn + (pyval list) dict" where
  "collect_rows keys [] unique_values = Inr unique_values"
| "collect_rows keys (NotInstance # rows) unique_values = Inl (ValueError RowsSameKeys)"
| "collect_rows keys (Instance row # rows) unique_values =
     (if set (map fst row) \<noteq> set keys then Inl (ValueError RowsSameKeys)
      else case add_row keys row unique_values of
             Inl e \<Rightarrow> Inl e
           | Inr unique_values' \<Rightarrow> collect_rows keys rows unique_values')"

fun sorted_items :: "(pyval list) dict \<Rightarrow> exn + (pyval list) dict" where
  "sorted_items [] = Inr []"
| "sorted_items ((k, v) # items) =
     (case py_sorted (filter (\<lambda>x. x \<noteq> PNone) v) of
        Inl e \<Rightarrow> Inl e
      | Inr vs \<Rightarrow>
          (case sorted_items items of
             Inl e \<Rightarrow> Inl e
           | Inr result \<Rightarrow> Inr ((k, vs) # result)))"

definition extract_rows_unique_value ::
  "pyval dict checked list checked \<Rightarrow> exn + (pyval list) dict" where
  "extract_rows_unique_value rows =
     (case rows of
        NotInstance \<Rightarrow> Inl (ValueError ExpectedListOfDicts)
      | Instance [] \<Rightarrow> Inr []
      | Instance (NotInstance # _) \<Rightarrow> Inl (ValueError ExpectedListOfDicts)
      | Instance (Instance row0 # rest) \<Rightarrow>
          (case collect_rows (map fst row0) (Instance row0 # rest) [] of
             Inl e \<Rightarrow> Inl e
           | Inr unique_values \<Rightarrow> sorted_items unique_values))"

text \<open>
  \<^verbatim>\<open>parse_cgi_value(cgiValues, keys, default_value)\<close>; \<^verbatim>\<open>cgiValues.get(key)\<close> is
  \<^verbatim>\<open>None\<close> for a key that is absent.
\<close>

fun parse_keys :: "pyval dict \<Rightarrow> string list \<Rightarrow> pyval \<Rightarrow> pyval dict \<Rightarrow> pyval dict" where
  "parse_keys cgiValues [] dv result = result"
| "parse_keys cgiValues (key # keys) dv result =
     (let v = (case map_of cgiValues key of None \<Rightarrow> PNone | Some x \<Rightarrow> x) in
      parse_keys cgiValues keys dv
        (AList.update key (if py_bool v \<and> v \<noteq> dv then PStr (py_str v) else PNone) result))"

definition parse_cgi_value ::
  "pyval dict checked \<Rightarrow> string list checked \<Rightarrow> pyval \<Rightarrow> exn + pyval dict" where
  "parse_cgi_value cgiValues keys dv =
     (case cgiValues of
        NotInstance \<Rightarrow> Inl (ValueError ExpectedDictCgiValues)
      | Instance c \<Rightarrow>
          (case keys of
             NotInstance \<Rightarrow> Inl (ValueError ExpectedListKeys)
           | Instance ks \<Rightarrow> Inr (parse_keys c ks dv [])))"

section \<open>Predicates used in the statements\<close>

text \<open>
  No option of the list is flagged, and the single-selection invariant of a Select:
  either \<open>_value\<close> is \<^verbatim>\<open>None\<close> and no option is flagged, or it refers to an option
  of the list, which is flagged, and no option before or after it is.
\<close>

definition none_selected :: "Option list \<Rightarrow> bool" where
  "none_selected opts = list_all (\<lambda>opt. \<not> is_selected opt) opts"

definition single_selection :: "Select \<Rightarrow> bool" where
  "single_selection s =
     (case sel_value s of
        None \<Rightarrow> none_selected (sel_options s)
      | Some i \<Rightarrow>
          i < length (sel_options s) \<and> is_selected (sel_options s ! i) \<and>
          none_selected (take i (sel_options s)) \<and>
          none_selected (drop (Suc i) (sel_options s)))"

text \<open>A name is known to a form when one of its fields has that name.\<close>

definition known :: "FilterForm \<Rightarrow> string \<Rightarrow> bool" where
  "known form name = (Some name \<in> set (map field_name (ff_fields form)))"

text \<open>What \<^verbatim>\<open>parse_cgi_value\<close> stores for one key.\<close>

definition normalized :: "pyval dict \<Rightarrow> pyval \<Rightarrow> string \<Rightarrow> pyval" where
  "normalized cgiValues dv key =
     (case map_of cgiValues key of
        None \<Rightarrow> PNone
      | Some v \<Rightarrow> if py_bool v \<and> v \<noteq> dv then PStr (py_str v) else PNone)"

text \<open>
  The order of \<^verbatim>\<open>sorted\<close> on the values it can compare, the test that the values of a
  column other than \<^verbatim>\<open>None\<close> are all integers or all strings, and the set that
  \<^verbatim>\<open>unique_values[k]\<close> holds (empty when the key is not there yet).
\<close>

fun py_lt :: "pyval \<Rightarrow> pyval \<Rightarrow> bool" where
  "py_lt (PInt a) (PInt b) = (a < b)"
| "py_lt (PStr a) (PStr b) = (a < b)"
| "py_lt _ _ = False"

definition uniform_column :: "pyval dict list \<Rightarrow> string \<Rightarrow> bool" where
  "uniform_column rs k =
     (let vs = filter (\<lambda>v. v \<noteq> PNone)
                 (map (\<lambda>r. case map_of r k of None \<Rightarrow> PNone | Some v \<Rightarrow> v) rs)
      in list_all is_PInt vs \<or> list_all is_PStr vs)"

definition uv_get :: "(pyval list) dict \<Rightarrow> string \<Rightarrow> pyval list" where
  "uv_get uv k = (case map_of uv k of None \<Rightarrow> [] | Some vs \<Rightarrow> vs)"

section \<open>DateSelector: the value\<close>

lemmas strptime_Ymd_eval =
  strptime_Ymd_string_def digit_of_def valid_date_def days_in_month_def is_leap_def Let_def

text \<open>
  Claim C5. For every string \<open>s\<close> that parses under the pattern \<^verbatim>\<open>%Y-%m-%d\<close>, setting
  the value of a DateSelector to \<open>s\<close> raises nothing, and reading the value afterwards
  returns exactly \<open>s\<close>: the string is stored as given, not reformatted.
\<close>

theorem DateSelector_set_get_verbatim:
  assumes "parses (PStr s)"
  shows "fst (DateSelector_set_value parses d (PStr s)) = None \<and>
         DateSelector_value (snd (DateSelector_set_value parses d (PStr s))) = PStr s"
  using assms by (simp add: DateSelector_set_value_def DateSelector_value_def)

text \<open>
  At \<^verbatim>\<open>"2024-1-5"\<close>, which parses and is not in the zero-padded form that
  \<^verbatim>\<open>strftime\<close> would produce.
\<close>

theorem DateSelector_set_get_verbatim_witness:
  "strptime_Ymd (PStr ''2024-1-5'') \<and>
   fst (DateSelector_set_value strptime_Ymd
          \<lparr>ds_name = Some ''start_date'', ds_value = PStr ''2026-11-04'', ds_label_name = ''start date''\<rparr>
          (PStr ''2024-1-5'')) = None \<and>
   DateSelector_value (snd (DateSelector_set_value strptime_Ymd
          \<lparr>ds_name = Some ''start_date'', ds_value = PStr ''2026-11-04'', ds_label_name = ''start date''\<rparr>
          (PStr ''2024-1-5''))) = PStr ''2024-1-5''"
proof -
  have p: "strptime_Ymd (PStr ''2024-1-5'')"
    by (simp add: strptime_Ymd_eval)
  from DateSelector_set_get_verbatim [where parses = strptime_Ymd and s = "''2024-1-5''", OF p] p show ?thesis
    by blast
qed

text \<open>
  Claim C6. For every DateSelector and every string that does not parse under the
  pattern \<^verbatim>\<open>%Y-%m-%d\<close>, the setter raises the \<open>ValueError\<close> that carries the
  offending value, and the object is what it was before: the stored value is unchanged.
\<close>

theorem DateSelector_set_invalid_rejected:
  assumes "\<not> parses (PStr s)"
  shows "DateSelector_set_value parses d (PStr s) =
           (Some (ValueError (InvalidDateFormat (PStr s))), d)"
  using assms by (simp add: DateSelector_set_value_def)

text \<open>At \<^verbatim>\<open>"2024-02-30"\<close>, a day that February does not have.\<close>

theorem DateSelector_set_invalid_rejected_witness:
  "\<not> strptime_Ymd (PStr ''2024-02-30'') \<and>
   DateSelector_set_value strptime_Ymd
     \<lparr>ds_name = Some ''start_date'', ds_value = PStr ''2026-11-04'', ds_label_name = ''start date''\<rparr>
     (PStr ''2024-02-30'') =
   (Some (ValueError (InvalidDateFormat (PStr ''2024-02-30''))),
    \<lparr>ds_name = Some ''start_date'', ds_value = PStr ''2026-11-04'', ds_label_name = ''start date''\<rparr>)"
proof -
  have p: "\<not> strptime_Ymd (PStr ''2024-02-30'')"
    by (simp add: strptime_Ymd_eval)
  from DateSelector_set_invalid_rejected [where parses = strptime_Ymd and s = "''2024-02-30''", OF p] p show ?thesis
    by blast
qed

text \<open>
  Claim C1. The claim is that the stored value of a DateSelector is at every point
  after construction today's date or a string that parses, also when the constructor
  was given a value. The constructor hands a truthy \<open>value\<close> to
  \<^verbatim>\<open>FormField.__init__\<close>, which assigns it without the validation of the setter:
  constructed with \<^verbatim>\<open>"not-a-date"\<close> on 2026-11-04, the field holds \<^verbatim>\<open>"not-a-date"\<close>,
  which is not today's date and does not parse, and which the setter of the same field
  rejects.
\<close>

theorem DateSelector_init_stores_unparsed_value:
  "DateSelector_init ''2026-11-04'' (Some ''start_date'') None (PStr ''not-a-date'') =
     Inr \<lparr>ds_name = Some ''start_date'', ds_value = PStr ''not-a-date'',
          ds_label_name = ''start date''\<rparr> \<and>
   DateSelector_value
     \<lparr>ds_name = Some ''start_date'', ds_value = PStr ''not-a-date'',
      ds_label_name = ''start date''\<rparr> = PStr ''not-a-date'' \<and>
   PStr ''not-a-date'' \<noteq> PStr ''2026-11-04'' \<and>
   \<not> strptime_Ymd (PStr ''not-a-date'') \<and>
   fst (DateSelector_set_value strptime_Ymd
          \<lparr>ds_name = Some ''start_date'', ds_value = PStr ''2026-11-04'',
           ds_label_name = ''start date''\<rparr> (PStr ''not-a-date'')) =
     Some (ValueError (InvalidDateFormat (PStr ''not-a-date'')))"
  by (simp add: DateSelector_init_def DateSelector_value_def DateSelector_set_value_def
      replace_underscores_def strptime_Ymd_eval)

section \<open>Select: selection state\<close>

lemma find_option_None:
  "find_option opts v = None \<longleftrightarrow> (\<forall>opt \<in> set opts. py_str (o_value opt) \<noteq> py_str v)"
  by (induction opts) auto

lemma find_option_Some:
  "find_option opts v = Some i \<Longrightarrow>
     i < length opts \<and> py_str (o_value (opts ! i)) = py_str v \<and>
     (\<forall>j < i. py_str (o_value (opts ! j)) \<noteq> py_str v)"
proof (induction opts arbitrary: i)
  case Nil
  then show ?case by simp
next
  case (Cons opt opts)
  show ?case
  proof (cases "py_str (o_value opt) = py_str v")
    case True
    with Cons.prems show ?thesis by simp
  next
    case False
    with Cons.prems obtain k where k: "find_option opts v = Some k" "i = Suc k"
      by auto
    from Cons.IH [OF k(1)] False k(2) show ?thesis
      by (auto simp: less_Suc_eq_0_disj)
  qed
qed

lemma reset_options:
  "map o_value (sel_options (Select_reset s)) = map o_value (sel_options s)"
  "length (sel_options (Select_reset s)) = length (sel_options s)"
  "none_selected (sel_options (Select_reset s))"
  "sel_value (Select_reset s) = None"
  "sel_name (Select_reset s) = sel_name s"
  by (simp_all add: Select_reset_def none_selected_def list_all_iff comp_def)

lemma find_option_reset:
  "find_option (sel_options (Select_reset s)) v = find_option (sel_options s) v"
proof -
  have "find_option (map (\<lambda>opt. opt\<lparr>is_selected := False\<rparr>) opts) v = find_option opts v" for opts
    by (induction opts) auto
  then show ?thesis by (simp add: Select_reset_def)
qed

text \<open>
  Claim C2. For every Select and every value \<open>v\<close> other than \<^verbatim>\<open>None\<close> such that no
  option has \<^verbatim>\<open>str(option.value) == str(v)\<close>, the setter raises the \<open>ValueError\<close>
  that lists \<open>v\<close> and the values of all options, and afterwards no option is flagged
  and the \<open>value\<close> property is \<^verbatim>\<open>None\<close>: the earlier selection is not restored. The
  values of the options are what they were.
\<close>

theorem Select_set_value_not_found:
  assumes "v \<noteq> PNone"
    and "\<forall>opt \<in> set (sel_options s). py_str (o_value opt) \<noteq> py_str v"
  shows "fst (Select_set_value s v) =
           Some (ValueError (FailedToSelect v (sel_name s) (map o_value (sel_options s)))) \<and>
         (\<forall>opt \<in> set (sel_options (snd (Select_set_value s v))). \<not> is_selected opt) \<and>
         Select_value (snd (Select_set_value s v)) = PNone \<and>
         map o_value (sel_options (snd (Select_set_value s v))) = map o_value (sel_options s)"
proof -
  from assms(2) have "find_option (sel_options (Select_reset s)) v = None"
    by (simp add: find_option_reset find_option_None)
  with assms(1) have *: "Select_set_value s v =
      (Some (ValueError (FailedToSelect v (sel_name s) (map o_value (sel_options s)))),
       Select_reset s)"
    by (simp add: Select_set_value_def Let_def reset_options)
  have "\<forall>opt \<in> set (sel_options (Select_reset s)). \<not> is_selected opt"
    using reset_options(3) [of s] by (simp add: none_selected_def list_all_iff)
  moreover have "Select_value (Select_reset s) = PNone"
    by (simp add: Select_value_def reset_options)
  ultimately show ?thesis
    using * by (simp add: reset_options)
qed

text \<open>
  At the Select with the options \<^verbatim>\<open>ANY\<close>, \<^verbatim>\<open>a\<close>, \<^verbatim>\<open>b\<close> in which \<^verbatim>\<open>a\<close> is selected,
  and the value \<^verbatim>\<open>z\<close>.
\<close>

theorem Select_set_value_not_found_witness:
  "fst (Select_set_value
          \<lparr>sel_name = Some ''run'', sel_label_name = Some ''Run'',
           sel_options = [\<lparr>o_value = PStr ''ANY'', is_selected = False\<rparr>,
                          \<lparr>o_value = PStr ''a'', is_selected = True\<rparr>,
                          \<lparr>o_value = PStr ''b'', is_selected = False\<rparr>],
           sel_value = Some 1\<rparr> (PStr ''z'')) =
     Some (ValueError (FailedToSelect (PStr ''z'') (Some ''run'')
                         [PStr ''ANY'', PStr ''a'', PStr ''b''])) \<and>
   Select_value (snd (Select_set_value
          \<lparr>sel_name = Some ''run'', sel_label_name = Some ''Run'',
           sel_options = [\<lparr>o_value = PStr ''ANY'', is_selected = False\<rparr>,
                          \<lparr>o_value = PStr ''a'', is_selected = True\<rparr>,
                          \<lparr>o_value = PStr ''b'', is_selected = False\<rparr>],
           sel_value = Some 1\<rparr> (PStr ''z''))) = PNone"
proof -
  let ?s = "\<lparr>sel_name = Some ''run'', sel_label_name = Some ''Run'',
           sel_options = [\<lparr>o_value = PStr ''ANY'', is_selected = False\<rparr>,
                          \<lparr>o_value = PStr ''a'', is_selected = True\<rparr>,
                          \<lparr>o_value = PStr ''b'', is_selected = False\<rparr>],
           sel_value = Some 1\<rparr>"
  have h1: "PStr ''z'' \<noteq> PNone" by simp
  have h2: "\<forall>opt \<in> set (sel_options ?s). py_str (o_value opt) \<noteq> py_str (PStr ''z'')"
    by simp
  from Select_set_value_not_found [OF h1 h2] show ?thesis
    by simp
qed

lemma none_selected_filter: "none_selected opts \<Longrightarrow> filter is_selected opts = []"
  by (induction opts) (auto simp: none_selected_def)

lemma single_selection_reset: "single_selection (Select_reset s)"
  by (simp add: single_selection_def reset_options)

lemma none_selected_take_drop:
  "none_selected opts \<Longrightarrow> none_selected (take i opts) \<and> none_selected (drop i opts)"
  by (auto simp: none_selected_def list_all_iff dest: in_set_takeD in_set_dropD)

lemma single_selection_set_value:
  assumes "single_selection s"
  shows "single_selection (snd (Select_set_value s v))"
proof (cases "v = PNone")
  case True
  with assms show ?thesis by (simp add: Select_set_value_def)
next
  case False
  let ?r = "Select_reset s"
  show ?thesis
  proof (cases "find_option (sel_options ?r) v")
    case None
    with False have "snd (Select_set_value s v) = ?r"
      by (simp add: Select_set_value_def Let_def)
    then show ?thesis by (simp add: single_selection_reset)
  next
    case (Some i)
    with False have eq: "snd (Select_set_value s v) =
        ?r\<lparr>sel_options := (sel_options ?r)[i := (sel_options ?r ! i)\<lparr>is_selected := True\<rparr>],
           sel_value := Some i\<rparr>"
      by (simp add: Select_set_value_def Let_def)
    from find_option_Some [OF Some] have i: "i < length (sel_options ?r)" by simp
    have ns: "none_selected (sel_options ?r)" by (rule reset_options)
    show ?thesis
      unfolding eq single_selection_def
      using i none_selected_take_drop [OF ns] by simp
  qed
qed

lemma single_selection_rename: "single_selection s \<Longrightarrow> single_selection (Select_rename s l n)"
  by (simp add: single_selection_def Select_rename_def split: option.splits)

lemma single_selection_apply: "single_selection s \<Longrightarrow> single_selection (Select_apply s op)"
  by (cases op) (simp_all add: single_selection_set_value single_selection_reset single_selection_rename)

lemma single_selection_run: "single_selection s \<Longrightarrow> single_selection (Select_run s ops)"
  unfolding Select_run_def
  by (induction ops arbitrary: s) (simp_all add: single_selection_apply)

lemma single_selection_init:
  assumes "Select_init name label_name options val = Inr s"
  shows "single_selection s"
proof -
  let ?s0 = "Select_reset \<lparr>sel_name = name, sel_label_name = label_name,
       sel_options = \<lparr>o_value = PStr default_value, is_selected = False\<rparr> #
                     map (\<lambda>v. \<lparr>o_value = v, is_selected = False\<rparr>) options,
       sel_value = None\<rparr>"
  let ?v = "if py_bool val then val else PStr default_value"
  from assms have "s = snd (Select_set_value ?s0 ?v)"
    by (auto simp: Select_init_def Let_def split: prod.splits option.splits)
  then show ?thesis
    by (simp add: single_selection_set_value single_selection_reset)
qed

lemma none_selected_split:
  assumes "i < length opts"
  shows "opts = take i opts @ opts ! i # drop (Suc i) opts"
  using assms by (rule id_take_nth_drop)

lemma single_selection_count:
  assumes "single_selection s"
  shows "length (filter is_selected (sel_options s)) \<le> 1"
proof (cases "sel_value s")
  case None
  with assms show ?thesis by (simp add: single_selection_def none_selected_filter)
next
  case (Some i)
  define opts where "opts = sel_options s"
  from Some assms have i: "i < length opts"
    and a: "none_selected (take i opts)"
    and b: "none_selected (drop (Suc i) opts)"
    by (simp_all add: single_selection_def opts_def)
  have "filter is_selected opts =
      filter is_selected (take i opts @ opts ! i # drop (Suc i) opts)"
    using none_selected_split [OF i] by (rule arg_cong)
  also have "length \<dots> \<le> 1"
    using a b by (simp add: none_selected_filter)
  finally show ?thesis by (simp add: opts_def)
qed

lemma single_selection_value:
  assumes "single_selection s" and "opt \<in> set (sel_options s)" and "is_selected opt"
  shows "Select_value s = o_value opt"
proof (cases "sel_value s")
  case None
  with assms show ?thesis by (auto simp: single_selection_def none_selected_def list_all_iff)
next
  case (Some i)
  define opts where "opts = sel_options s"
  from Some assms(1) have i: "i < length opts"
    and a: "none_selected (take i opts)"
    and b: "none_selected (drop (Suc i) opts)"
    by (simp_all add: single_selection_def opts_def)
  have "set opts = set (take i opts @ opts ! i # drop (Suc i) opts)"
    using none_selected_split [OF i] by (rule arg_cong)
  then have "opt \<in> set (take i opts) \<union> {opts ! i} \<union> set (drop (Suc i) opts)"
    using assms(2) by (simp add: opts_def)
  with assms(3) a b have "opt = opts ! i"
    by (auto simp: none_selected_def list_all_iff)
  with Some show ?thesis by (simp add: Select_value_def opts_def)
qed

lemma single_selection_value_None:
  assumes "single_selection s" and "\<forall>opt \<in> set (sel_options s). \<not> is_selected opt"
  shows "Select_value s = PNone"
  using assms by (cases "sel_value s") (auto simp: single_selection_def Select_value_def)

text \<open>
  Claim C4. For every Select that its constructor returned and every sequence of the
  operations value setter (whether it raises or not), \<open>reset\<close> and \<open>rename\<close> applied to
  it, at most one option of the list is flagged; the \<open>value\<close> property is the value of
  the flagged option when there is one, and \<^verbatim>\<open>None\<close> when there is none.
\<close>

theorem Select_single_selection:
  assumes "Select_init name label_name options val = Inr s0"
    and "s = Select_run s0 ops"
  shows "length (filter is_selected (sel_options s)) \<le> 1 \<and>
         (\<forall>opt \<in> set (sel_options s). is_selected opt \<longrightarrow> Select_value s = o_value opt) \<and>
         ((\<forall>opt \<in> set (sel_options s). \<not> is_selected opt) \<longrightarrow> Select_value s = PNone)"
proof -
  have "single_selection s"
    using assms by (simp add: single_selection_init single_selection_run)
  then show ?thesis
    using single_selection_count single_selection_value single_selection_value_None by blast
qed

text \<open>
  At the Select constructed with the options \<^verbatim>\<open>a\<close>, \<^verbatim>\<open>b\<close> and no value, after
  selecting \<^verbatim>\<open>a\<close>, failing to select \<^verbatim>\<open>z\<close>, a reset, a rename and selecting \<^verbatim>\<open>b\<close>.
\<close>

theorem Select_single_selection_witness:
  "Select_init (Some ''run'') (Some ''Run'') [PStr ''a'', PStr ''b''] PNone =
     Inr \<lparr>sel_name = Some ''run'', sel_label_name = Some ''Run'',
          sel_options = [\<lparr>o_value = PStr ''ANY'', is_selected = True\<rparr>,
                         \<lparr>o_value = PStr ''a'', is_selected = False\<rparr>,
                         \<lparr>o_value = PStr ''b'', is_selected = False\<rparr>],
          sel_value = Some 0\<rparr> \<and>
   length (filter is_selected (sel_options (Select_run
     \<lparr>sel_name = Some ''run'', sel_label_name = Some ''Run'',
      sel_options = [\<lparr>o_value = PStr ''ANY'', is_selected = True\<rparr>,
                     \<lparr>o_value = PStr ''a'', is_selected = False\<rparr>,
                     \<lparr>o_value = PStr ''b'', is_selected = False\<rparr>],
      sel_value = Some 0\<rparr>
     [SetValue (PStr ''a''), SetValue (PStr ''z''), Reset,
      Rename (Some ''Run number'') (Some ''run_no''), SetValue (PStr ''b'')]))) \<le> 1"
proof -
  have init: "Select_init (Some ''run'') (Some ''Run'') [PStr ''a'', PStr ''b''] PNone =
     Inr \<lparr>sel_name = Some ''run'', sel_label_name = Some ''Run'',
          sel_options = [\<lparr>o_value = PStr ''ANY'', is_selected = True\<rparr>,
                         \<lparr>o_value = PStr ''a'', is_selected = False\<rparr>,
                         \<lparr>o_value = PStr ''b'', is_selected = False\<rparr>],
          sel_value = Some 0\<rparr>"
    by (simp add: Select_init_def Select_set_value_def Select_reset_def default_value_def)
  from Select_single_selection [OF init refl] init show ?thesis
    by blast
qed

section \<open>Select: construction with a falsy value\<close>

lemma str_nat_not_Nil: "str_nat n \<noteq> []"
  by (subst str_nat.simps) simp

lemma py_str_Nil: "py_str v = [] \<longleftrightarrow> v = PStr []"
  by (cases v) (simp_all add: str_int_def str_nat_not_Nil)

lemma find_option_map_unselected:
  "find_option (map (\<lambda>v. \<lparr>o_value = v, is_selected = False\<rparr>) vs) x = None \<longleftrightarrow>
     (\<forall>v \<in> set vs. py_str v \<noteq> py_str x)"
  by (induction vs) auto

lemma find_option_empty_string:
  assumes "PStr [] \<in> set options"
  shows "\<exists>i < length options. options ! i = PStr [] \<and> (\<forall>j < i. options ! j \<noteq> PStr []) \<and>
           find_option (map (\<lambda>v. \<lparr>o_value = v, is_selected = False\<rparr>) options) (PStr []) = Some i"
proof -
  let ?opts = "map (\<lambda>v. \<lparr>o_value = v, is_selected = False\<rparr>) options"
  have "find_option ?opts (PStr []) \<noteq> None"
  proof
    assume "find_option ?opts (PStr []) = None"
    then have "\<forall>v \<in> set options. py_str v \<noteq> py_str (PStr [])"
      by (simp only: find_option_map_unselected)
    with assms show False by auto
  qed
  then obtain i where i: "find_option ?opts (PStr []) = Some i"
    by blast
  from find_option_Some [OF i]
  have "i < length options" "py_str (options ! i) = []" "\<forall>j < i. py_str (options ! j) \<noteq> []"
    by auto
  with i show ?thesis
    by (auto simp: py_str_Nil)
qed

lemma Select_set_empty_string_present:
  assumes "PStr [] \<in> set options"
  shows "\<exists>i < length options. options ! i = PStr [] \<and> (\<forall>j < i. options ! j \<noteq> PStr []) \<and>
     Select_set_value
       \<lparr>sel_name = name, sel_label_name = label_name,
        sel_options = \<lparr>o_value = PStr default_value, is_selected = True\<rparr> #
                      map (\<lambda>v. \<lparr>o_value = v, is_selected = False\<rparr>) options,
        sel_value = Some 0\<rparr> (PStr []) =
     (None,
      \<lparr>sel_name = name, sel_label_name = label_name,
       sel_options = (\<lparr>o_value = PStr default_value, is_selected = False\<rparr> #
                      map (\<lambda>v. \<lparr>o_value = v, is_selected = False\<rparr>) options)
                     [Suc i := \<lparr>o_value = PStr [], is_selected = True\<rparr>],
       sel_value = Some (Suc i)\<rparr>)"
proof -
  from find_option_empty_string [OF assms] obtain i where i:
    "i < length options" "options ! i = PStr []" "\<forall>j < i. options ! j \<noteq> PStr []"
    "find_option (map (\<lambda>v. \<lparr>o_value = v, is_selected = False\<rparr>) options) (PStr []) = Some i"
    by blast
  from i(1,2,4) have "Select_set_value
       \<lparr>sel_name = name, sel_label_name = label_name,
        sel_options = \<lparr>o_value = PStr default_value, is_selected = True\<rparr> #
                      map (\<lambda>v. \<lparr>o_value = v, is_selected = False\<rparr>) options,
        sel_value = Some 0\<rparr> (PStr []) =
     (None,
      \<lparr>sel_name = name, sel_label_name = label_name,
       sel_options = (\<lparr>o_value = PStr default_value, is_selected = False\<rparr> #
                      map (\<lambda>v. \<lparr>o_value = v, is_selected = False\<rparr>) options)
                     [Suc i := \<lparr>o_value = PStr [], is_selected = True\<rparr>],
       sel_value = Some (Suc i)\<rparr>)"
    by (simp add: Select_set_value_def Select_reset_def Let_def comp_def default_value_def)
  with i(1,2,3) show ?thesis by blast
qed

text \<open>
  Claim C10, as amended. Constructing a Select with a falsy value argument (\<^verbatim>\<open>None\<close>,
  the empty string, or 0) never raises: the constructor returns the Select in which
  the default option \<^verbatim>\<open>ANY\<close>, the first of the list, is the one selected. Passing the
  empty string to the setter of that Select raises the \<open>ValueError\<close> of a failed
  selection when the empty string is not among the options given to the constructor.
  When it is among them, the setter raises nothing: it takes the flag from \<^verbatim>\<open>ANY\<close>
  and selects the first option that is the empty string, and the \<open>value\<close> property
  is then the empty string.
\<close>

theorem Select_init_falsy_selects_default:
  assumes "\<not> py_bool val"
  shows "let s = \<lparr>sel_name = name, sel_label_name = label_name,
                   sel_options = \<lparr>o_value = PStr default_value, is_selected = True\<rparr> #
                                 map (\<lambda>v. \<lparr>o_value = v, is_selected = False\<rparr>) options,
                   sel_value = Some 0\<rparr>
         in Select_init name label_name options val = Inr s \<and>
            Select_value s = PStr ''ANY'' \<and>
            (PStr [] \<notin> set options \<longrightarrow>
               fst (Select_set_value s (PStr [])) =
                 Some (ValueError (FailedToSelect (PStr []) name (PStr ''ANY'' # options)))) \<and>
            (PStr [] \<in> set options \<longrightarrow>
               (\<exists>i < length options.
                  options ! i = PStr [] \<and> (\<forall>j < i. options ! j \<noteq> PStr []) \<and>
                  Select_set_value s (PStr []) =
                    (None,
                     \<lparr>sel_name = name, sel_label_name = label_name,
                      sel_options =
                        (\<lparr>o_value = PStr default_value, is_selected = False\<rparr> #
                         map (\<lambda>v. \<lparr>o_value = v, is_selected = False\<rparr>) options)
                        [Suc i := \<lparr>o_value = PStr [], is_selected = True\<rparr>],
                      sel_value = Some (Suc i)\<rparr>)) \<and>
               Select_value (snd (Select_set_value s (PStr []))) = PStr [])"
proof -
  let ?s = "\<lparr>sel_name = name, sel_label_name = label_name,
             sel_options = \<lparr>o_value = PStr default_value, is_selected = True\<rparr> #
                           map (\<lambda>v. \<lparr>o_value = v, is_selected = False\<rparr>) options,
             sel_value = Some 0\<rparr>"
  have init: "Select_init name label_name options val = Inr ?s"
    using assms
    by (simp add: Select_init_def Select_set_value_def Select_reset_def Let_def comp_def)
  have val: "Select_value ?s = PStr ''ANY''"
    by (simp add: Select_value_def default_value_def)
  have "fst (Select_set_value ?s (PStr [])) =
          Some (ValueError (FailedToSelect (PStr []) name (PStr ''ANY'' # options)))"
    if "PStr [] \<notin> set options"
  proof -
    from that have "\<forall>v \<in> set options. py_str v \<noteq> []"
      by (auto simp: py_str_Nil)
    then have "find_option (map (\<lambda>v. \<lparr>o_value = v, is_selected = False\<rparr>) options) (PStr []) = None"
      by (simp add: find_option_map_unselected)
    then show ?thesis
      by (simp add: Select_set_value_def Select_reset_def Let_def comp_def default_value_def)
  qed
  moreover have "(\<exists>i < length options.
        options ! i = PStr [] \<and> (\<forall>j < i. options ! j \<noteq> PStr []) \<and>
        Select_set_value ?s (PStr []) =
          (None,
           \<lparr>sel_name = name, sel_label_name = label_name,
            sel_options =
              (\<lparr>o_value = PStr default_value, is_selected = False\<rparr> #
               map (\<lambda>v. \<lparr>o_value = v, is_selected = False\<rparr>) options)
              [Suc i := \<lparr>o_value = PStr [], is_selected = True\<rparr>],
            sel_value = Some (Suc i)\<rparr>)) \<and>
      Select_value (snd (Select_set_value ?s (PStr []))) = PStr []"
    if present: "PStr [] \<in> set options"
  proof -
    from Select_set_empty_string_present [OF present, of name label_name] obtain i where i:
      "i < length options" "options ! i = PStr []" "\<forall>j < i. options ! j \<noteq> PStr []"
      "Select_set_value ?s (PStr []) =
          (None,
           \<lparr>sel_name = name, sel_label_name = label_name,
            sel_options =
              (\<lparr>o_value = PStr default_value, is_selected = False\<rparr> #
               map (\<lambda>v. \<lparr>o_value = v, is_selected = False\<rparr>) options)
              [Suc i := \<lparr>o_value = PStr [], is_selected = True\<rparr>],
            sel_value = Some (Suc i)\<rparr>)"
      by blast
    from i(1,4) have "Select_value (snd (Select_set_value ?s (PStr []))) = PStr []"
      by (simp add: Select_value_def)
    with i show ?thesis by blast
  qed
  ultimately show ?thesis
    using init val by (simp add: Let_def)
qed

text \<open>
  At the options \<^verbatim>\<open>a\<close> and 0 with the empty string as value, and at the options
  \<^verbatim>\<open>b\<close> and twice the empty string with no value.
\<close>

theorem Select_init_falsy_selects_default_witness:
  "Select_init (Some ''run'') (Some ''Run'') [PStr ''a'', PInt 0] (PStr '''') =
     Inr \<lparr>sel_name = Some ''run'', sel_label_name = Some ''Run'',
          sel_options = [\<lparr>o_value = PStr ''ANY'', is_selected = True\<rparr>,
                         \<lparr>o_value = PStr ''a'', is_selected = False\<rparr>,
                         \<lparr>o_value = PInt 0, is_selected = False\<rparr>],
          sel_value = Some 0\<rparr> \<and>
   fst (Select_set_value
          \<lparr>sel_name = Some ''run'', sel_label_name = Some ''Run'',
           sel_options = [\<lparr>o_value = PStr ''ANY'', is_selected = True\<rparr>,
                          \<lparr>o_value = PStr ''a'', is_selected = False\<rparr>,
                          \<lparr>o_value = PInt 0, is_selected = False\<rparr>],
           sel_value = Some 0\<rparr> (PStr '''')) =
     Some (ValueError (FailedToSelect (PStr '''') (Some ''run'')
                         [PStr ''ANY'', PStr ''a'', PInt 0])) \<and>
   Select_init (Some ''kind'') None [PStr ''b'', PStr '''', PStr ''''] PNone =
     Inr \<lparr>sel_name = Some ''kind'', sel_label_name = None,
          sel_options = [\<lparr>o_value = PStr ''ANY'', is_selected = True\<rparr>,
                         \<lparr>o_value = PStr ''b'', is_selected = False\<rparr>,
                         \<lparr>o_value = PStr '''', is_selected = False\<rparr>,
                         \<lparr>o_value = PStr '''', is_selected = False\<rparr>],
          sel_value = Some 0\<rparr> \<and>
   Select_value (snd (Select_set_value
          \<lparr>sel_name = Some ''kind'', sel_label_name = None,
           sel_options = [\<lparr>o_value = PStr ''ANY'', is_selected = True\<rparr>,
                          \<lparr>o_value = PStr ''b'', is_selected = False\<rparr>,
                          \<lparr>o_value = PStr '''', is_selected = False\<rparr>,
                          \<lparr>o_value = PStr '''', is_selected = False\<rparr>],
           sel_value = Some 0\<rparr> (PStr ''''))) = PStr ''''"
proof -
  have h: "\<not> py_bool (PStr '''')" by simp
  from Select_init_falsy_selects_default [OF h, of "Some ''run''" "Some ''Run''" "[PStr ''a'', PInt 0]"]
  have absent: "Select_init (Some ''run'') (Some ''Run'') [PStr ''a'', PInt 0] (PStr '''') =
     Inr \<lparr>sel_name = Some ''run'', sel_label_name = Some ''Run'',
          sel_options = [\<lparr>o_value = PStr ''ANY'', is_selected = True\<rparr>,
                         \<lparr>o_value = PStr ''a'', is_selected = False\<rparr>,
                         \<lparr>o_value = PInt 0, is_selected = False\<rparr>],
          sel_value = Some 0\<rparr> \<and>
   fst (Select_set_value
          \<lparr>sel_name = Some ''run'', sel_label_name = Some ''Run'',
           sel_options = [\<lparr>o_value = PStr ''ANY'', is_selected = True\<rparr>,
                          \<lparr>o_value = PStr ''a'', is_selected = False\<rparr>,
                          \<lparr>o_value = PInt 0, is_selected = False\<rparr>],
           sel_value = Some 0\<rparr> (PStr '''')) =
     Some (ValueError (FailedToSelect (PStr '''') (Some ''run'')
                         [PStr ''ANY'', PStr ''a'', PInt 0]))"
    by (simp add: default_value_def Let_def)
  have g: "\<not> py_bool PNone" by simp
  have present: "Select_init (Some ''kind'') None [PStr ''b'', PStr '''', PStr ''''] PNone =
     Inr \<lparr>sel_name = Some ''kind'', sel_label_name = None,
          sel_options = [\<lparr>o_value = PStr ''ANY'', is_selected = True\<rparr>,
                         \<lparr>o_value = PStr ''b'', is_selected = False\<rparr>,
                         \<lparr>o_value = PStr '''', is_selected = False\<rparr>,
                         \<lparr>o_value = PStr '''', is_selected = False\<rparr>],
          sel_value = Some 0\<rparr> \<and>
   Select_value (snd (Select_set_value
          \<lparr>sel_name = Some ''kind'', sel_label_name = None,
           sel_options = [\<lparr>o_value = PStr ''ANY'', is_selected = True\<rparr>,
                          \<lparr>o_value = PStr ''b'', is_selected = False\<rparr>,
                          \<lparr>o_value = PStr '''', is_selected = False\<rparr>,
                          \<lparr>o_value = PStr '''', is_selected = False\<rparr>],
           sel_value = Some 0\<rparr> (PStr ''''))) = PStr ''''"
    using Select_init_falsy_selects_default
      [OF g, of "Some ''kind''" None "[PStr ''b'', PStr '''', PStr '''']"]
    unfolding Let_def default_value_def by simp
  from absent present show ?thesis by blast
qed

text \<open>
  Claim C10 as stated says that the setter fails on the empty string. With the empty
  string among the options, the constructor selects \<^verbatim>\<open>ANY\<close> for the empty string as
  value, and the setter then selects the option with the empty string and raises
  nothing.
\<close>

theorem Select_set_empty_string_counterexample:
  "Select_init (Some ''run'') (Some ''Run'') [PStr '''', PStr ''a''] (PStr '''') =
     Inr \<lparr>sel_name = Some ''run'', sel_label_name = Some ''Run'',
          sel_options = [\<lparr>o_value = PStr ''ANY'', is_selected = True\<rparr>,
                         \<lparr>o_value = PStr '''', is_selected = False\<rparr>,
                         \<lparr>o_value = PStr ''a'', is_selected = False\<rparr>],
          sel_value = Some 0\<rparr> \<and>
   Select_set_value
     \<lparr>sel_name = Some ''run'', sel_label_name = Some ''Run'',
      sel_options = [\<lparr>o_value = PStr ''ANY'', is_selected = True\<rparr>,
                     \<lparr>o_value = PStr '''', is_selected = False\<rparr>,
                     \<lparr>o_value = PStr ''a'', is_selected = False\<rparr>],
      sel_value = Some 0\<rparr> (PStr '''') =
     (None,
      \<lparr>sel_name = Some ''run'', sel_label_name = Some ''Run'',
       sel_options = [\<lparr>o_value = PStr ''ANY'', is_selected = False\<rparr>,
                      \<lparr>o_value = PStr '''', is_selected = True\<rparr>,
                      \<lparr>o_value = PStr ''a'', is_selected = False\<rparr>],
       sel_value = Some 1\<rparr>)"
  by (simp add: Select_init_def Select_set_value_def Select_reset_def default_value_def)

section \<open>FilterForm: replacing a field\<close>

lemma find_name_None: "find_name fs n = None \<longleftrightarrow> n \<notin> set (map field_name fs)"
  by (induction fs) auto

lemma find_name_Some:
  "find_name fs n = Some i \<Longrightarrow>
     i < length fs \<and> field_name (fs ! i) = n \<and> (\<forall>j < i. field_name (fs ! j) \<noteq> n)"
proof (induction fs arbitrary: i)
  case Nil
  then show ?case by simp
next
  case (Cons f fs)
  show ?case
  proof (cases "field_name f = n")
    case True
    with Cons.prems show ?thesis by simp
  next
    case False
    with Cons.prems obtain k where k: "find_name fs n = Some k" "i = Suc k"
      by auto
    from Cons.IH [OF k(1)] False k(2) show ?thesis
      by (auto simp: less_Suc_eq_0_disj)
  qed
qed

text \<open>
  Claim C9. \<open>set_field\<close> raises the \<open>ValueError\<close> for a field without a name when
  the name of the given field is \<^verbatim>\<open>None\<close>; it raises \<open>KeyError\<close> with the name, and
  inserts nothing, when no field of the form has that name; otherwise it puts the given
  field at the position of the first field with that name, and the list of fields has
  the same length and the same field at every other position.
\<close>

theorem set_field_replaces_in_place:
  "(field_name field = None \<longrightarrow>
      set_field form field = (Some (ValueError FieldMustHaveName), form)) \<and>
   (field_name field = Some n \<and> \<not> known form n \<longrightarrow>
      set_field form field = (Some (KeyError n), form)) \<and>
   (field_name field = Some n \<and> known form n \<longrightarrow>
      (\<exists>i < length (ff_fields form).
         field_name (ff_fields form ! i) = Some n \<and>
         (\<forall>j < i. field_name (ff_fields form ! j) \<noteq> Some n) \<and>
         set_field form field = (None, form\<lparr>ff_fields := (ff_fields form)[i := field]\<rparr>) \<and>
         length (ff_fields (snd (set_field form field))) = length (ff_fields form) \<and>
         ff_fields (snd (set_field form field)) ! i = field \<and>
         (\<forall>j < length (ff_fields form). j \<noteq> i \<longrightarrow>
            ff_fields (snd (set_field form field)) ! j = ff_fields form ! j)))"
proof (intro conjI impI)
  assume "field_name field = None"
  then show "set_field form field = (Some (ValueError FieldMustHaveName), form)"
    by (simp add: set_field_def)
next
  assume "field_name field = Some n \<and> \<not> known form n"
  then show "set_field form field = (Some (KeyError n), form)"
    by (simp add: set_field_def known_def find_name_None [THEN iffD2])
next
  assume a: "field_name field = Some n \<and> known form n"
  then obtain i where i: "find_name (ff_fields form) (Some n) = Some i"
    using find_name_None [of "ff_fields form" "Some n"] by (auto simp: known_def)
  from find_name_Some [OF i] a i
  show "\<exists>i < length (ff_fields form).
         field_name (ff_fields form ! i) = Some n \<and>
         (\<forall>j < i. field_name (ff_fields form ! j) \<noteq> Some n) \<and>
         set_field form field = (None, form\<lparr>ff_fields := (ff_fields form)[i := field]\<rparr>) \<and>
         length (ff_fields (snd (set_field form field))) = length (ff_fields form) \<and>
         ff_fields (snd (set_field form field)) ! i = field \<and>
         (\<forall>j < length (ff_fields form). j \<noteq> i \<longrightarrow>
            ff_fields (snd (set_field form field)) ! j = ff_fields form ! j)"
    by (intro exI [of _ i]) (simp add: set_field_def)
qed

text \<open>
  At a form with a date field \<^verbatim>\<open>start_date\<close> and a select \<^verbatim>\<open>run\<close>: a new select
  named \<^verbatim>\<open>run\<close> replaces the second field, a date field without a name and one named
  \<^verbatim>\<open>end_date\<close> are refused.
\<close>

theorem set_field_replaces_in_place_witness:
  "set_field
     \<lparr>ff_fields =
        [DateField \<lparr>ds_name = Some ''start_date'', ds_value = PStr ''2026-11-04'',
                    ds_label_name = ''start date''\<rparr>,
         SelectField \<lparr>sel_name = Some ''run'', sel_label_name = Some ''Run'',
                      sel_options = [\<lparr>o_value = PStr ''ANY'', is_selected = True\<rparr>],
                      sel_value = Some 0\<rparr>],
      ff_action = ''/dashboard/'', ff_cgi_method = ''list'', ff_request_method = ''GET''\<rparr>
     (SelectField \<lparr>sel_name = Some ''run'', sel_label_name = Some ''Run number'',
                   sel_options = [\<lparr>o_value = PStr ''ANY'', is_selected = False\<rparr>,
                                  \<lparr>o_value = PInt 7, is_selected = True\<rparr>],
                   sel_value = Some 1\<rparr>) =
   (None,
    \<lparr>ff_fields =
        [DateField \<lparr>ds_name = Some ''start_date'', ds_value = PStr ''2026-11-04'',
                    ds_label_name = ''start date''\<rparr>,
         SelectField \<lparr>sel_name = Some ''run'', sel_label_name = Some ''Run number'',
                      sel_options = [\<lparr>o_value = PStr ''ANY'', is_selected = False\<rparr>,
                                     \<lparr>o_value = PInt 7, is_selected = True\<rparr>],
                      sel_value = Some 1\<rparr>],
      ff_action = ''/dashboard/'', ff_cgi_method = ''list'', ff_request_method = ''GET''\<rparr>) \<and>
   set_field
     \<lparr>ff_fields =
        [DateField \<lparr>ds_name = Some ''start_date'', ds_value = PStr ''2026-11-04'',
                    ds_label_name = ''start date''\<rparr>,
         SelectField \<lparr>sel_name = Some ''run'', sel_label_name = Some ''Run'',
                      sel_options = [\<lparr>o_value = PStr ''ANY'', is_selected = True\<rparr>],
                      sel_value = Some 0\<rparr>],
      ff_action = ''/dashboard/'', ff_cgi_method = ''list'', ff_request_method = ''GET''\<rparr>
     (DateField \<lparr>ds_name = None, ds_value = PStr ''2026-11-04'', ds_label_name = ''day''\<rparr>) =
   (Some (ValueError FieldMustHaveName),
    \<lparr>ff_fields =
        [DateField \<lparr>ds_name = Some ''start_date'', ds_value = PStr ''2026-11-04'',
                    ds_label_name = ''start date''\<rparr>,
         SelectField \<lparr>sel_name = Some ''run'', sel_label_name = Some ''Run'',
                      sel_options = [\<lparr>o_value = PStr ''ANY'', is_selected = True\<rparr>],
                      sel_value = Some 0\<rparr>],
      ff_action = ''/dashboard/'', ff_cgi_method = ''list'', ff_request_method = ''GET''\<rparr>) \<and>
   set_field
     \<lparr>ff_fields =
        [DateField \<lparr>ds_name = Some ''start_date'', ds_value = PStr ''2026-11-04'',
                    ds_label_name = ''start date''\<rparr>,
         SelectField \<lparr>sel_name = Some ''run'', sel_label_name = Some ''Run'',
                      sel_options = [\<lparr>o_value = PStr ''ANY'', is_selected = True\<rparr>],
                      sel_value = Some 0\<rparr>],
      ff_action = ''/dashboard/'', ff_cgi_method = ''list'', ff_request_method = ''GET''\<rparr>
     (DateField \<lparr>ds_name = Some ''end_date'', ds_value = PStr ''2026-11-04'',
                 ds_label_name = ''end date''\<rparr>) =
   (Some (KeyError ''end_date''),
    \<lparr>ff_fields =
        [DateField \<lparr>ds_name = Some ''start_date'', ds_value = PStr ''2026-11-04'',
                    ds_label_name = ''start date''\<rparr>,
         SelectField \<lparr>sel_name = Some ''run'', sel_label_name = Some ''Run'',
                      sel_options = [\<lparr>o_value = PStr ''ANY'', is_selected = True\<rparr>],
                      sel_value = Some 0\<rparr>],
      ff_action = ''/dashboard/'', ff_cgi_method = ''list'', ff_request_method = ''GET''\<rparr>)"
proof -
  let ?form = "\<lparr>ff_fields =
        [DateField \<lparr>ds_name = Some ''start_date'', ds_value = PStr ''2026-11-04'',
                    ds_label_name = ''start date''\<rparr>,
         SelectField \<lparr>sel_name = Some ''run'', sel_label_name = Some ''Run'',
                      sel_options = [\<lparr>o_value = PStr ''ANY'', is_selected = True\<rparr>],
                      sel_value = Some 0\<rparr>],
      ff_action = ''/dashboard/'', ff_cgi_method = ''list'', ff_request_method = ''GET''\<rparr>"
  let ?new = "SelectField \<lparr>sel_name = Some ''run'', sel_label_name = Some ''Run number'',
                   sel_options = [\<lparr>o_value = PStr ''ANY'', is_selected = False\<rparr>,
                                  \<lparr>o_value = PInt 7, is_selected = True\<rparr>],
                   sel_value = Some 1\<rparr>"
  let ?anon = "DateField \<lparr>ds_name = None, ds_value = PStr ''2026-11-04'', ds_label_name = ''day''\<rparr>"
  let ?other = "DateField \<lparr>ds_name = Some ''end_date'', ds_value = PStr ''2026-11-04'',
                 ds_label_name = ''end date''\<rparr>"
  have k: "known ?form ''run''" "\<not> known ?form ''end_date''"
    by (simp_all add: known_def)
  have n: "field_name ?new = Some ''run''"
    by simp
  from set_field_replaces_in_place [of ?new ?form "''run''"] k(1) n
  obtain i where i: "i < length (ff_fields ?form)"
    "field_name (ff_fields ?form ! i) = Some ''run''"
    "set_field ?form ?new = (None, ?form\<lparr>ff_fields := (ff_fields ?form)[i := ?new]\<rparr>)"
    by blast
  from i(1,2) have "i = 1"
    by (cases i) simp_all
  with i(3) have a: "set_field ?form ?new = (None, ?form\<lparr>ff_fields := (ff_fields ?form)[1 := ?new]\<rparr>)"
    by simp
  from set_field_replaces_in_place [of ?anon ?form]
  have b: "set_field ?form ?anon = (Some (ValueError FieldMustHaveName), ?form)"
    by simp
  from set_field_replaces_in_place [of ?other ?form "''end_date''"] k(2)
  have c: "set_field ?form ?other = (Some (KeyError ''end_date''), ?form)"
    by simp
  from a b c show ?thesis by simp
qed

section \<open>FilterForm: bulk update\<close>

lemma field_dict_from_absent:
  "k \<notin> set (map field_name fs) \<Longrightarrow> field_dict_from i fs m k = m k"
  by (induction fs arbitrary: i m) auto

lemma field_dict_from_present:
  "k \<in> set (map field_name fs) \<Longrightarrow> \<exists>j. field_dict_from i fs m k = Some j"
proof (induction fs arbitrary: i m)
  case Nil
  then show ?case by simp
next
  case (Cons f fs)
  show ?case
  proof (cases "k \<in> set (map field_name fs)")
    case True
    then show ?thesis by (simp add: Cons.IH)
  next
    case False
    with Cons.prems have "field_name f = k" by simp
    with False show ?thesis by (simp add: field_dict_from_absent)
  qed
qed

lemma get_field_unknown: "\<not> known form name \<Longrightarrow> get_field form name = Inl (KeyError name)"
  by (simp add: get_field_def field_dict_def known_def field_dict_from_absent)

lemma get_field_known: "known form name \<Longrightarrow> \<exists>i. get_field form name = Inr i"
  using field_dict_from_present [of "Some name" "ff_fields form" 0 Map.empty]
  by (auto simp: get_field_def field_dict_def known_def)

lemma field_set_value_no_KeyError: "fst (field_set_value parses f v) \<noteq> Some (KeyError k)"
  by (cases f)
    (auto simp: DateSelector_set_value_def Select_set_value_def Let_def split: option.splits)

lemma setitem_unknown:
  "\<not> known form name \<Longrightarrow> setitem parses form name v = (Some (KeyError name), form)"
  by (simp add: setitem_def get_field_unknown)

lemma setitem_known_no_KeyError:
  assumes "known form name"
  shows "fst (setitem parses form name v) \<noteq> Some (KeyError k)"
proof -
  from get_field_known [OF assms] obtain i where "get_field form name = Inr i" ..
  then show ?thesis
    using field_set_value_no_KeyError [of parses "ff_fields form ! i" v k]
    by (auto simp: setitem_def split: prod.splits)
qed

text \<open>
  Claim C3. \<open>update\<close> goes through the items of the mapping in their order. For a
  name that a field of the form has, it sets the value of the field through
  \<^verbatim>\<open>__setitem__\<close> and goes on with the rest, or stops with the exception of the field's
  setter. For a name that no field has: when unknown fields are ignored the item is
  skipped, the form is left as it is and nothing is raised for it; when they are not
  ignored, \<open>update\<close> raises \<open>KeyError\<close> with that name and the form is as it was before
  the item.
\<close>

theorem update_applies_in_order:
  "update parses form [] ign = (None, form) \<and>
   (known form name \<longrightarrow>
      update parses form ((name, v) # rest) ign =
        (case setitem parses form name v of
           (None, form') \<Rightarrow> update parses form' rest ign
         | (Some e, form') \<Rightarrow> (Some e, form'))) \<and>
   (\<not> known form name \<longrightarrow>
      update parses form ((name, v) # rest) True = update parses form rest True \<and>
      update parses form [(name, v)] True = (None, form) \<and>
      update parses form ((name, v) # rest) False = (Some (KeyError name), form))"
proof (intro conjI impI)
  show "update parses form [] ign = (None, form)" by simp
next
  assume k: "known form name"
  obtain e form' where s: "setitem parses form name v = (e, form')"
    by (cases "setitem parses form name v")
  show "update parses form ((name, v) # rest) ign =
        (case setitem parses form name v of
           (None, form') \<Rightarrow> update parses form' rest ign
         | (Some e, form') \<Rightarrow> (Some e, form'))"
  proof (cases e)
    case None
    with s show ?thesis by simp
  next
    case (Some x)
    with s setitem_known_no_KeyError [OF k, of parses v] have "\<forall>k. x \<noteq> KeyError k"
      by auto
    with s Some show ?thesis by (cases x) simp_all
  qed
next
  assume "\<not> known form name"
  then show "update parses form ((name, v) # rest) True = update parses form rest True"
    by (simp add: setitem_unknown)
next
  assume "\<not> known form name"
  then show "update parses form [(name, v)] True = (None, form)"
    by (simp add: setitem_unknown)
next
  assume "\<not> known form name"
  then show "update parses form ((name, v) # rest) False = (Some (KeyError name), form)"
    by (simp add: setitem_unknown)
qed

text \<open>
  At a form with a date field \<^verbatim>\<open>start_date\<close> and a select \<^verbatim>\<open>run\<close>: an unknown name
  alone, ignored; an unknown name first, not ignored; and two known names around an
  unknown one, ignored.
\<close>

theorem update_applies_in_order_witness:
  "update strptime_Ymd
     \<lparr>ff_fields =
        [DateField \<lparr>ds_name = Some ''start_date'', ds_value = PStr ''2026-11-04'',
                    ds_label_name = ''start date''\<rparr>,
         SelectField \<lparr>sel_name = Some ''run'', sel_label_name = Some ''Run'',
                      sel_options = [\<lparr>o_value = PStr ''ANY'', is_selected = True\<rparr>,
                                     \<lparr>o_value = PStr ''a'', is_selected = False\<rparr>],
                      sel_value = Some 0\<rparr>],
      ff_action = ''/dashboard/'', ff_cgi_method = ''list'', ff_request_method = ''GET''\<rparr>
     [(''unknown_field'', PStr ''x'')] True =
   (None,
    \<lparr>ff_fields =
        [DateField \<lparr>ds_name = Some ''start_date'', ds_value = PStr ''2026-11-04'',
                    ds_label_name = ''start date''\<rparr>,
         SelectField \<lparr>sel_name = Some ''run'', sel_label_name = Some ''Run'',
                      sel_options = [\<lparr>o_value = PStr ''ANY'', is_selected = True\<rparr>,
                                     \<lparr>o_value = PStr ''a'', is_selected = False\<rparr>],
                      sel_value = Some 0\<rparr>],
      ff_action = ''/dashboard/'', ff_cgi_method = ''list'', ff_request_method = ''GET''\<rparr>) \<and>
   update strptime_Ymd
     \<lparr>ff_fields =
        [DateField \<lparr>ds_name = Some ''start_date'', ds_value = PStr ''2026-11-04'',
                    ds_label_name = ''start date''\<rparr>,
         SelectField \<lparr>sel_name = Some ''run'', sel_label_name = Some ''Run'',
                      sel_options = [\<lparr>o_value = PStr ''ANY'', is_selected = True\<rparr>,
                                     \<lparr>o_value = PStr ''a'', is_selected = False\<rparr>],
                      sel_value = Some 0\<rparr>],
      ff_action = ''/dashboard/'', ff_cgi_method = ''list'', ff_request_method = ''GET''\<rparr>
     [(''unknown_field'', PStr ''x''), (''run'', PStr ''a'')] False =
   (Some (KeyError ''unknown_field''),
    \<lparr>ff_fields =
        [DateField \<lparr>ds_name = Some ''start_date'', ds_value = PStr ''2026-11-04'',
                    ds_label_name = ''start date''\<rparr>,
         SelectField \<lparr>sel_name = Some ''run'', sel_label_name = Some ''Run'',
                      sel_options = [\<lparr>o_value = PStr ''ANY'', is_selected = True\<rparr>,
                                     \<lparr>o_value = PStr ''a'', is_selected = False\<rparr>],
                      sel_value = Some 0\<rparr>],
      ff_action = ''/dashboard/'', ff_cgi_method = ''list'', ff_request_method = ''GET''\<rparr>) \<and>
   update strptime_Ymd
     \<lparr>ff_fields =
        [DateField \<lparr>ds_name = Some ''start_date'', ds_value = PStr ''2026-11-04'',
                    ds_label_name = ''start date''\<rparr>,
         SelectField \<lparr>sel_name = Some ''run'', sel_label_name = Some ''Run'',
                      sel_options = [\<lparr>o_value = PStr ''ANY'', is_selected = True\<rparr>,
                                     \<lparr>o_value = PStr ''a'', is_selected = False\<rparr>],
                      sel_value = Some 0\<rparr>],
      ff_action = ''/dashboard/'', ff_cgi_method = ''list'', ff_request_method = ''GET''\<rparr>
     [(''run'', PStr ''a''), (''unknown_field'', PStr ''x''),
      (''start_date'', PStr ''2024-01-05'')] True =
   (None,
    \<lparr>ff_fields =
        [DateField \<lparr>ds_name = Some ''start_date'', ds_value = PStr ''2024-01-05'',
                    ds_label_name = ''start date''\<rparr>,
         SelectField \<lparr>sel_name = Some ''run'', sel_label_name = Some ''Run'',
                      sel_options = [\<lparr>o_value = PStr ''ANY'', is_selected = False\<rparr>,
                                     \<lparr>o_value = PStr ''a'', is_selected = True\<rparr>],
                      sel_value = Some 1\<rparr>],
      ff_action = ''/dashboard/'', ff_cgi_method = ''list'', ff_request_method = ''GET''\<rparr>)"
proof -
  let ?form = "\<lparr>ff_fields =
        [DateField \<lparr>ds_name = Some ''start_date'', ds_value = PStr ''2026-11-04'',
                    ds_label_name = ''start date''\<rparr>,
         SelectField \<lparr>sel_name = Some ''run'', sel_label_name = Some ''Run'',
                      sel_options = [\<lparr>o_value = PStr ''ANY'', is_selected = True\<rparr>,
                                     \<lparr>o_value = PStr ''a'', is_selected = False\<rparr>],
                      sel_value = Some 0\<rparr>],
      ff_action = ''/dashboard/'', ff_cgi_method = ''list'', ff_request_method = ''GET''\<rparr>"
  have k: "\<not> known ?form ''unknown_field''" "known ?form ''run''"
    by (simp_all add: known_def)
  from k(1) update_applies_in_order
      [where parses = strptime_Ymd and form = ?form and name = "''unknown_field''"
         and v = "PStr ''x''"]
  have a: "update strptime_Ymd ?form [(''unknown_field'', PStr ''x'')] True = (None, ?form)"
    by blast
  from k(1) update_applies_in_order
      [where parses = strptime_Ymd and form = ?form and name = "''unknown_field''"
         and v = "PStr ''x''" and rest = "[(''run'', PStr ''a'')]"]
  have b: "update strptime_Ymd ?form [(''unknown_field'', PStr ''x''), (''run'', PStr ''a'')] False =
      (Some (KeyError ''unknown_field''), ?form)"
    by blast
  from k(2) update_applies_in_order
      [where parses = strptime_Ymd and form = ?form and name = "''run''" and v = "PStr ''a''"
         and ign = True
         and rest = "[(''unknown_field'', PStr ''x''), (''start_date'', PStr ''2024-01-05'')]"]
  have "update strptime_Ymd ?form
          [(''run'', PStr ''a''), (''unknown_field'', PStr ''x''),
           (''start_date'', PStr ''2024-01-05'')] True =
        (case setitem strptime_Ymd ?form ''run'' (PStr ''a'') of
           (None, form') \<Rightarrow>
             update strptime_Ymd form'
               [(''unknown_field'', PStr ''x''), (''start_date'', PStr ''2024-01-05'')] True
         | (Some e, form') \<Rightarrow> (Some e, form'))"
    by blast
  also have "\<dots> = (None, \<lparr>ff_fields =
        [DateField \<lparr>ds_name = Some ''start_date'', ds_value = PStr ''2024-01-05'',
                    ds_label_name = ''start date''\<rparr>,
         SelectField \<lparr>sel_name = Some ''run'', sel_label_name = Some ''Run'',
                      sel_options = [\<lparr>o_value = PStr ''ANY'', is_selected = False\<rparr>,
                                     \<lparr>o_value = PStr ''a'', is_selected = True\<rparr>],
                      sel_value = Some 1\<rparr>],
      ff_action = ''/dashboard/'', ff_cgi_method = ''list'', ff_request_method = ''GET''\<rparr>)"
    by (simp add: setitem_def get_field_def field_dict_def Select_set_value_def
        Select_reset_def DateSelector_set_value_def strptime_Ymd_string_def digit_of_def
        valid_date_def days_in_month_def is_leap_def Let_def)
  finally show ?thesis
    using a b by simp
qed

section \<open>Utilities: normalizing request parameters\<close>

lemma map_of_parse_keys:
  "map_of (parse_keys c ks dv result) k =
     (if k \<in> set ks then Some (normalized c dv k) else map_of result k)"
proof (induction ks arbitrary: result)
  case Nil
  show ?case by simp
next
  case (Cons key keys)
  show ?case
    by (auto simp: Cons.IH Let_def update_conv' normalized_def split: option.splits)
qed

lemma keys_parse_keys:
  "fst ` set (parse_keys c ks dv result) = set ks \<union> fst ` set result"
  by (induction ks arbitrary: result) (auto simp: Let_def dom_update)

lemma distinct_parse_keys:
  "distinct (map fst result) \<Longrightarrow> distinct (map fst (parse_keys c ks dv result))"
  by (induction ks arbitrary: result) (simp_all add: Let_def distinct_update)

text \<open>
  Claim C8. For a dictionary and a list of keys, \<^verbatim>\<open>parse_cgi_value\<close> returns a
  dictionary whose keys are exactly the given keys. A key is mapped to the string form
  of its entry when the entry is present, truthy (for a string: not empty) and not equal
  to the default value, and to \<^verbatim>\<open>None\<close> otherwise. When the first argument is not a
  dictionary or the second is not a list, it raises the \<open>ValueError\<close> for that argument.
\<close>

theorem parse_cgi_value_normalizes:
  "parse_cgi_value (Instance c) (Instance ks) dv = Inr (parse_keys c ks dv []) \<and>
   set (map fst (parse_keys c ks dv [])) = set ks \<and>
   distinct (map fst (parse_keys c ks dv [])) \<and>
   (\<forall>k \<in> set ks.
      map_of (parse_keys c ks dv []) k =
        Some (case map_of c k of
                None \<Rightarrow> PNone
              | Some v \<Rightarrow> if py_bool v \<and> v \<noteq> dv then PStr (py_str v) else PNone)) \<and>
   parse_cgi_value NotInstance keys dv = Inl (ValueError ExpectedDictCgiValues) \<and>
   parse_cgi_value (Instance c) NotInstance dv = Inl (ValueError ExpectedListKeys)"
proof -
  have "set (map fst (parse_keys c ks dv [])) = set ks"
    using keys_parse_keys [of c ks dv "[]"] by simp
  moreover have "distinct (map fst (parse_keys c ks dv []))"
    by (rule distinct_parse_keys) simp
  moreover have "\<forall>k \<in> set ks. map_of (parse_keys c ks dv []) k =
        Some (case map_of c k of
                None \<Rightarrow> PNone
              | Some v \<Rightarrow> if py_bool v \<and> v \<noteq> dv then PStr (py_str v) else PNone)"
    by (simp add: map_of_parse_keys normalized_def)
  ultimately show ?thesis
    by (simp add: parse_cgi_value_def)
qed

text \<open>
  At the example of the specification, and at a dictionary with an integer, an empty
  string and the default value, asked for these keys and one that is absent.
\<close>

theorem parse_cgi_value_normalizes_witness:
  "parse_cgi_value (Instance [(''k'', PStr ''ANY'')]) (Instance [''k'', ''m'']) (PStr default_value) =
     Inr [(''k'', PNone), (''m'', PNone)] \<and>
   map_of (parse_keys [(''run'', PInt 12), (''day'', PStr ''''), (''kind'', PStr ''ANY'')]
             [''run'', ''day'', ''kind'', ''site''] (PStr ''ANY'') []) ''run'' = Some (PStr ''12'') \<and>
   map_of (parse_keys [(''run'', PInt 12), (''day'', PStr ''''), (''kind'', PStr ''ANY'')]
             [''run'', ''day'', ''kind'', ''site''] (PStr ''ANY'') []) ''day'' = Some PNone \<and>
   map_of (parse_keys [(''run'', PInt 12), (''day'', PStr ''''), (''kind'', PStr ''ANY'')]
             [''run'', ''day'', ''kind'', ''site''] (PStr ''ANY'') []) ''kind'' = Some PNone \<and>
   map_of (parse_keys [(''run'', PInt 12), (''day'', PStr ''''), (''kind'', PStr ''ANY'')]
             [''run'', ''day'', ''kind'', ''site''] (PStr ''ANY'') []) ''site'' = Some PNone"
proof -
  have "parse_cgi_value (Instance [(''k'', PStr ''ANY'')]) (Instance [''k'', ''m'']) (PStr default_value) =
     Inr [(''k'', PNone), (''m'', PNone)]"
    using parse_cgi_value_normalizes
      [of "[(''k'', PStr ''ANY'')]" "[''k'', ''m'']" "PStr default_value"]
    by (simp add: default_value_def)
  moreover have "12 div 10 = (1::nat)" "12 mod 10 = (2::nat)"
    by simp_all
  then have "str_int 12 = ''12''"
    by (simp add: str_int_def str_nat.simps)
  ultimately show ?thesis
    using parse_cgi_value_normalizes
      [of "[(''run'', PInt 12), (''day'', PStr ''''), (''kind'', PStr ''ANY'')]"
          "[''run'', ''day'', ''kind'', ''site'']" "PStr ''ANY''"]
    by simp
qed

section \<open>Utilities: distinct values of the columns\<close>

lemma py_sorted_ints:
  assumes "list_all is_PInt xs" and "distinct xs"
  shows "sorted_wrt py_lt (map PInt (sort (map the_int xs)))"
    and "set (map PInt (sort (map the_int xs))) = set xs"
proof -
  have inj: "inj_on the_int (set xs)"
  proof (rule inj_onI)
    fix x y
    assume xy: "x \<in> set xs" "y \<in> set xs" and eq: "the_int x = the_int y"
    from xy assms(1) have "is_PInt x" "is_PInt y"
      by (simp_all add: list_all_iff)
    with eq show "x = y"
      by (cases x; cases y) simp_all
  qed
  with assms(2) have "distinct (map the_int xs)"
    by (simp add: distinct_map)
  then have "sorted_wrt (<) (sort (map the_int xs))"
    by (simp add: strict_sorted_iff)
  then show "sorted_wrt py_lt (map PInt (sort (map the_int xs)))"
    by (simp add: sorted_wrt_map)
  show "set (map PInt (sort (map the_int xs))) = set xs"
    using assms(1) by (force simp: list_all_iff is_PInt_def)
qed

lemma py_sorted_strs:
  assumes "list_all is_PStr xs" and "distinct xs"
  shows "sorted_wrt py_lt (map PStr (sort (map the_str xs)))"
    and "set (map PStr (sort (map the_str xs))) = set xs"
proof -
  have inj: "inj_on the_str (set xs)"
  proof (rule inj_onI)
    fix x y
    assume xy: "x \<in> set xs" "y \<in> set xs" and eq: "the_str x = the_str y"
    from xy assms(1) have "is_PStr x" "is_PStr y"
      by (simp_all add: list_all_iff)
    with eq show "x = y"
      by (cases x; cases y) simp_all
  qed
  with assms(2) have "distinct (map the_str xs)"
    by (simp add: distinct_map)
  then have "sorted_wrt (<) (sort (map the_str xs))"
    by (simp add: strict_sorted_iff)
  then show "sorted_wrt py_lt (map PStr (sort (map the_str xs)))"
    by (simp add: sorted_wrt_map)
  show "set (map PStr (sort (map the_str xs))) = set xs"
    using assms(1) by (force simp: list_all_iff is_PStr_def)
qed

lemma py_sorted_uniform:
  assumes "list_all is_PInt xs \<or> list_all is_PStr xs" and "distinct xs"
  shows "\<exists>ys. py_sorted xs = Inr ys \<and> sorted_wrt py_lt ys \<and> set ys = set xs"
proof (cases "length xs \<le> 1")
  case True
  then have "xs = [] \<or> (\<exists>x. xs = [x])"
    by (cases xs) auto
  then have "sorted_wrt py_lt xs" by auto
  with True show ?thesis by (simp add: py_sorted_def)
next
  case False
  show ?thesis
  proof (cases "list_all is_PInt xs")
    case True
    with False py_sorted_ints [OF True assms(2)] show ?thesis
      by (simp add: py_sorted_def)
  next
    case no_ints: False
    with assms(1) have strs: "list_all is_PStr xs" by simp
    with False no_ints py_sorted_strs [OF strs assms(2)] show ?thesis
      by (simp add: py_sorted_def)
  qed
qed

lemma uv_get_update:
  "uv_get (AList.update k vs uv) k' = (if k' = k then vs else uv_get uv k')"
  by (simp add: uv_get_def update_conv')

lemma add_row_ok:
  assumes "set ks \<subseteq> fst ` set row"
  shows "\<exists>uv'. add_row ks row uv = Inr uv' \<and>
           fst ` set uv' = fst ` set uv \<union> set ks \<and>
           (distinct (map fst uv) \<longrightarrow> distinct (map fst uv')) \<and>
           (\<forall>k. set (uv_get uv' k) =
                  set (uv_get uv k) \<union> (if k \<in> set ks then {the (map_of row k)} else {})) \<and>
           ((\<forall>k. distinct (uv_get uv k)) \<longrightarrow> (\<forall>k. distinct (uv_get uv' k)))"
  using assms
proof (induction ks arbitrary: uv)
  case Nil
  then show ?case by simp
next
  case (Cons k ks)
  from Cons.prems obtain x where x: "map_of row k = Some x"
    by (cases "map_of row k") (auto simp: map_of_eq_None_iff)
  let ?uv1 = "AList.update k (List.insert x (uv_get uv k)) uv"
  from Cons.prems have "set ks \<subseteq> fst ` set row" by simp
  from Cons.IH [OF this, of ?uv1] obtain uv' where uv':
    "add_row ks row ?uv1 = Inr uv'"
    "fst ` set uv' = fst ` set ?uv1 \<union> set ks"
    "distinct (map fst ?uv1) \<longrightarrow> distinct (map fst uv')"
    "\<forall>k'. set (uv_get uv' k') =
           set (uv_get ?uv1 k') \<union> (if k' \<in> set ks then {the (map_of row k')} else {})"
    "(\<forall>k'. distinct (uv_get ?uv1 k')) \<longrightarrow> (\<forall>k'. distinct (uv_get uv' k'))"
    by blast
  have 1: "add_row (k # ks) row uv = Inr uv'"
    using x uv'(1) by (simp add: uv_get_def)
  have 2: "fst ` set uv' = fst ` set uv \<union> set (k # ks)"
    using uv'(2) by (auto simp: dom_update)
  have 3: "distinct (map fst uv) \<longrightarrow> distinct (map fst uv')"
    using uv'(3) by (simp add: distinct_update)
  have 4: "set (uv_get uv' k') =
      set (uv_get uv k') \<union> (if k' \<in> set (k # ks) then {the (map_of row k')} else {})" for k'
    using uv'(4) x by (auto simp: uv_get_update)
  have 5: "(\<forall>k'. distinct (uv_get uv k')) \<longrightarrow> (\<forall>k'. distinct (uv_get uv' k'))"
    using uv'(5) by (simp add: uv_get_update)
  from 1 2 3 4 5 show ?case by blast
qed

lemma collect_rows_ok:
  assumes "\<forall>r \<in> set rs. set (map fst r) = set keys"
  shows "\<exists>uv'. collect_rows keys (map Instance rs) uv = Inr uv' \<and>
           fst ` set uv' = fst ` set uv \<union> (if rs = [] then {} else set keys) \<and>
           (distinct (map fst uv) \<longrightarrow> distinct (map fst uv')) \<and>
           (\<forall>k. set (uv_get uv' k) =
                  set (uv_get uv k) \<union> {v. k \<in> set keys \<and> (\<exists>r \<in> set rs. map_of r k = Some v)}) \<and>
           ((\<forall>k. distinct (uv_get uv k)) \<longrightarrow> (\<forall>k. distinct (uv_get uv' k)))"
  using assms
proof (induction rs arbitrary: uv)
  case Nil
  then show ?case by simp
next
  case (Cons r rs)
  from Cons.prems have keys: "set (map fst r) = set keys"
    and rest: "\<forall>r \<in> set rs. set (map fst r) = set keys"
    by simp_all
  from keys have "set keys \<subseteq> fst ` set r" by auto
  from add_row_ok [OF this, of uv] obtain uv1 where uv1:
    "add_row keys r uv = Inr uv1"
    "fst ` set uv1 = fst ` set uv \<union> set keys"
    "distinct (map fst uv) \<longrightarrow> distinct (map fst uv1)"
    "\<forall>k. set (uv_get uv1 k) =
          set (uv_get uv k) \<union> (if k \<in> set keys then {the (map_of r k)} else {})"
    "(\<forall>k. distinct (uv_get uv k)) \<longrightarrow> (\<forall>k. distinct (uv_get uv1 k))"
    by blast
  from Cons.IH [OF rest, of uv1] obtain uv' where uv':
    "collect_rows keys (map Instance rs) uv1 = Inr uv'"
    "fst ` set uv' = fst ` set uv1 \<union> (if rs = [] then {} else set keys)"
    "distinct (map fst uv1) \<longrightarrow> distinct (map fst uv')"
    "\<forall>k. set (uv_get uv' k) =
          set (uv_get uv1 k) \<union> {v. k \<in> set keys \<and> (\<exists>r \<in> set rs. map_of r k = Some v)}"
    "(\<forall>k. distinct (uv_get uv1 k)) \<longrightarrow> (\<forall>k. distinct (uv_get uv' k))"
    by blast
  have the_row: "{the (map_of r k)} = {v. map_of r k = Some v}" if "k \<in> set keys" for k
  proof -
    from that keys have "k \<in> fst ` set r" by auto
    then obtain x where "map_of r k = Some x"
      by (cases "map_of r k") (auto simp: map_of_eq_None_iff)
    then show ?thesis by auto
  qed
  have 1: "collect_rows keys (map Instance (r # rs)) uv = Inr uv'"
    using keys uv1(1) uv'(1) by simp
  have 2: "fst ` set uv' = fst ` set uv \<union> (if r # rs = [] then {} else set keys)"
    using uv1(2) uv'(2) by auto
  have 3: "distinct (map fst uv) \<longrightarrow> distinct (map fst uv')"
    using uv1(3) uv'(3) by blast
  have 4: "set (uv_get uv' k) =
      set (uv_get uv k) \<union> {v. k \<in> set keys \<and> (\<exists>r' \<in> set (r # rs). map_of r' k = Some v)}" for k
  proof (cases "k \<in> set keys")
    case True
    from uv'(4) uv1(4) True the_row [OF True] show ?thesis by auto
  next
    case False
    from uv'(4) uv1(4) False show ?thesis by simp
  qed
  have 5: "(\<forall>k. distinct (uv_get uv k)) \<longrightarrow> (\<forall>k. distinct (uv_get uv' k))"
    using uv1(5) uv'(5) by blast
  from 1 2 3 4 5 show ?case by blast
qed

lemma collect_rows_bad:
  assumes "\<exists>x \<in> set rows. x = NotInstance \<or> (\<exists>r. x = Instance r \<and> set (map fst r) \<noteq> set keys)"
  shows "collect_rows keys rows uv = Inl (ValueError RowsSameKeys)"
  using assms
proof (induction rows arbitrary: uv)
  case Nil
  then show ?case by simp
next
  case (Cons x rows)
  show ?case
  proof (cases x)
    case NotInstance
    then show ?thesis by simp
  next
    case (Instance r)
    show ?thesis
    proof (cases "set (map fst r) = set keys")
      case False
      with Instance show ?thesis by simp
    next
      case True
      then have "set keys \<subseteq> fst ` set r" by auto
      from add_row_ok [OF this, of uv] obtain uv1 where uv1: "add_row keys r uv = Inr uv1"
        by blast
      from Cons.prems Instance True
      have "\<exists>x \<in> set rows. x = NotInstance \<or> (\<exists>r. x = Instance r \<and> set (map fst r) \<noteq> set keys)"
        by auto
      from Cons.IH [OF this, of uv1] Instance True uv1 show ?thesis by simp
    qed
  qed
qed

lemma sorted_items_ok:
  assumes "\<forall>(k, v) \<in> set uv. distinct v \<and>
             (list_all is_PInt (filter (\<lambda>x. x \<noteq> PNone) v) \<or>
              list_all is_PStr (filter (\<lambda>x. x \<noteq> PNone) v))"
  shows "\<exists>res. sorted_items uv = Inr res \<and> map fst res = map fst uv \<and>
           (\<forall>k v. map_of uv k = Some v \<longrightarrow>
              (\<exists>vs. map_of res k = Some vs \<and> sorted_wrt py_lt vs \<and> set vs = set v - {PNone}))"
  using assms
proof (induction uv)
  case Nil
  then show ?case by simp
next
  case (Cons item uv)
  obtain k v where item: "item = (k, v)" by (cases item)
  from Cons.prems item have v: "distinct (filter (\<lambda>x. x \<noteq> PNone) v)"
    "list_all is_PInt (filter (\<lambda>x. x \<noteq> PNone) v) \<or> list_all is_PStr (filter (\<lambda>x. x \<noteq> PNone) v)"
    by simp_all
  from py_sorted_uniform [OF v(2) v(1)] obtain vs where vs:
    "py_sorted (filter (\<lambda>x. x \<noteq> PNone) v) = Inr vs" "sorted_wrt py_lt vs"
    "set vs = set (filter (\<lambda>x. x \<noteq> PNone) v)"
    by blast
  from Cons.prems have "\<forall>(k, v) \<in> set uv. distinct v \<and>
             (list_all is_PInt (filter (\<lambda>x. x \<noteq> PNone) v) \<or>
              list_all is_PStr (filter (\<lambda>x. x \<noteq> PNone) v))"
    by simp
  from Cons.IH [OF this] obtain res where res:
    "sorted_items uv = Inr res" "map fst res = map fst uv"
    "\<forall>k v. map_of uv k = Some v \<longrightarrow>
       (\<exists>vs. map_of res k = Some vs \<and> sorted_wrt py_lt vs \<and> set vs = set v - {PNone})"
    by blast
  have 1: "sorted_items (item # uv) = Inr ((k, vs) # res)"
    using item vs(1) res(1) by simp
  have 2: "map fst ((k, vs) # res) = map fst (item # uv)"
    using item res(2) by simp
  have 3: "\<exists>ws. map_of ((k, vs) # res) k' = Some ws \<and> sorted_wrt py_lt ws \<and> set ws = set v' - {PNone}"
    if "map_of (item # uv) k' = Some v'" for k' v'
  proof (cases "k' = k")
    case True
    with that item have "v' = v" by simp
    with True vs show ?thesis by auto
  next
    case False
    with that item have "map_of uv k' = Some v'" by simp
    with res(3) False show ?thesis by simp
  qed
  from 1 2 3 show ?case by blast
qed

lemma py_sorted_mixed:
  assumes "\<not> list_all is_PInt xs" and "\<not> list_all is_PStr xs" and "PNone \<notin> set xs"
  shows "py_sorted xs = Inl TypeError"
proof -
  have "\<not> length xs \<le> 1"
  proof
    assume "length xs \<le> 1"
    then consider "xs = []" | x where "xs = [x]"
      by (cases xs) auto
    then show False
    proof cases
      case 1
      with assms(1) show False by simp
    next
      case 2
      with assms show False by (cases x) simp_all
    qed
  qed
  with assms(1,2) show ?thesis by (simp add: py_sorted_def)
qed

lemma py_sorted_raises_TypeError: "py_sorted xs = Inl e \<Longrightarrow> e = TypeError"
  by (auto simp: py_sorted_def split: if_splits)

lemma sorted_items_raises_TypeError: "sorted_items uv = Inl e \<Longrightarrow> e = TypeError"
proof (induction uv)
  case Nil
  then show ?case by simp
next
  case (Cons item uv)
  obtain k v where "item = (k, v)" by (cases item)
  with Cons show ?case
    by (auto split: sum.splits dest: py_sorted_raises_TypeError)
qed

lemma sorted_items_mixed:
  assumes "(k, v) \<in> set uv"
    and "\<not> list_all is_PInt (filter (\<lambda>x. x \<noteq> PNone) v)"
    and "\<not> list_all is_PStr (filter (\<lambda>x. x \<noteq> PNone) v)"
  shows "sorted_items uv = Inl TypeError"
  using assms(1)
proof (induction uv)
  case Nil
  then show ?case by simp
next
  case (Cons item uv)
  obtain k' v' where item: "item = (k', v')" by (cases item)
  show ?case
  proof (cases "py_sorted (filter (\<lambda>x. x \<noteq> PNone) v')")
    case (Inl e)
    with item py_sorted_raises_TypeError [OF Inl] show ?thesis by simp
  next
    case (Inr vs)
    have "item \<noteq> (k, v)"
    proof
      assume "item = (k, v)"
      with item have "v' = v" by simp
      with py_sorted_mixed [OF assms(2,3)] Inr show False by simp
    qed
    with Cons.prems have "(k, v) \<in> set uv" by simp
    from Cons.IH [OF this] item Inr show ?thesis by simp
  qed
qed

lemma mixed_column_values:
  assumes "\<not> uniform_column rs k"
    and "set v = {x. \<exists>r \<in> set rs. map_of r k = Some x}"
  shows "\<not> list_all is_PInt (filter (\<lambda>x. x \<noteq> PNone) v) \<and>
         \<not> list_all is_PStr (filter (\<lambda>x. x \<noteq> PNone) v)"
proof -
  let ?col = "map (\<lambda>r. case map_of r k of None \<Rightarrow> PNone | Some v \<Rightarrow> v) rs"
  have sub: "set (filter (\<lambda>x. x \<noteq> PNone) ?col) \<subseteq> set (filter (\<lambda>x. x \<noteq> PNone) v)"
  proof
    fix x assume "x \<in> set (filter (\<lambda>x. x \<noteq> PNone) ?col)"
    then obtain r where r: "r \<in> set rs" "x = (case map_of r k of None \<Rightarrow> PNone | Some v \<Rightarrow> v)"
      "x \<noteq> PNone"
      by auto
    then have "map_of r k = Some x"
      by (cases "map_of r k") simp_all
    with r(1,3) assms(2) show "x \<in> set (filter (\<lambda>x. x \<noteq> PNone) v)"
      by auto
  qed
  from assms(1) have "\<not> list_all is_PInt (filter (\<lambda>x. x \<noteq> PNone) ?col)"
    and "\<not> list_all is_PStr (filter (\<lambda>x. x \<noteq> PNone) ?col)"
    by (simp_all add: uniform_column_def Let_def)
  with sub show ?thesis
    unfolding list_all_iff by blast
qed

lemma uniform_column_values:
  assumes "uniform_column rs k"
    and "set v \<subseteq> {x. \<exists>r \<in> set rs. map_of r k = Some x}"
  shows "list_all is_PInt (filter (\<lambda>x. x \<noteq> PNone) v) \<or>
         list_all is_PStr (filter (\<lambda>x. x \<noteq> PNone) v)"
proof -
  let ?col = "map (\<lambda>r. case map_of r k of None \<Rightarrow> PNone | Some v \<Rightarrow> v) rs"
  have "set (filter (\<lambda>x. x \<noteq> PNone) v) \<subseteq> set (filter (\<lambda>x. x \<noteq> PNone) ?col)"
    using assms(2) by force
  with assms(1) show ?thesis
    unfolding uniform_column_def Let_def list_all_iff by blast
qed

text \<open>
  Claim C7, as amended. \<^verbatim>\<open>extract_rows_unique_value\<close> returns the empty dictionary
  for the empty list. It raises a \<open>ValueError\<close> when the argument is not a list, when
  an element of the list is not a dictionary, and when the keys of a row are not those
  of the first row. For a list of dictionaries that all have the keys of the first one,
  and in which the values other than \<^verbatim>\<open>None\<close> of every column are all integers or all
  strings, it returns a dictionary with exactly the keys of the first row, in which
  every key has the list, in strictly ascending order (so without repetition), of the
  values other than \<^verbatim>\<open>None\<close> that the rows have for that key. For such a list in
  which some column holds both an integer and a string, it raises \<open>TypeError\<close>.
\<close>

theorem extract_rows_unique_value_sorted_distinct:
  "extract_rows_unique_value (Instance []) = Inr [] \<and>
   extract_rows_unique_value NotInstance = Inl (ValueError ExpectedListOfDicts) \<and>
   (NotInstance \<in> set rows \<longrightarrow>
      (\<exists>m. extract_rows_unique_value (Instance rows) = Inl (ValueError m))) \<and>
   (Instance r \<in> set rest \<and> set (map fst r) \<noteq> set (map fst first_row) \<longrightarrow>
      extract_rows_unique_value (Instance (Instance first_row # rest)) =
        Inl (ValueError RowsSameKeys)) \<and>
   ((\<forall>r \<in> set rs. set (map fst r) = set (map fst first_row)) \<and>
    (\<forall>k \<in> set (map fst first_row). uniform_column (first_row # rs) k) \<longrightarrow>
      (\<exists>result. extract_rows_unique_value (Instance (map Instance (first_row # rs))) = Inr result \<and>
         set (map fst result) = set (map fst first_row) \<and> distinct (map fst result) \<and>
         (\<forall>k \<in> set (map fst first_row).
            \<exists>vs. map_of result k = Some vs \<and> sorted_wrt py_lt vs \<and>
                 set vs = {v. v \<noteq> PNone \<and> (\<exists>r \<in> set (first_row # rs). map_of r k = Some v)}))) \<and>
   ((\<forall>r \<in> set rs. set (map fst r) = set (map fst first_row)) \<and>
    (\<exists>k \<in> set (map fst first_row). \<not> uniform_column (first_row # rs) k) \<longrightarrow>
      extract_rows_unique_value (Instance (map Instance (first_row # rs))) = Inl TypeError)"
proof (intro conjI impI)
  show "extract_rows_unique_value (Instance []) = Inr []"
    by (simp add: extract_rows_unique_value_def)
next
  show "extract_rows_unique_value NotInstance = Inl (ValueError ExpectedListOfDicts)"
    by (simp add: extract_rows_unique_value_def)
next
  assume bad: "NotInstance \<in> set rows"
  then obtain x rest' where rows: "rows = x # rest'"
    by (cases rows) auto
  show "\<exists>m. extract_rows_unique_value (Instance rows) = Inl (ValueError m)"
  proof (cases x)
    case NotInstance
    with rows show ?thesis by (simp add: extract_rows_unique_value_def)
  next
    case (Instance r0)
    from bad have "\<exists>x \<in> set rows. x = NotInstance \<or>
        (\<exists>r. x = Instance r \<and> set (map fst r) \<noteq> set (map fst r0))"
      by blast
    from collect_rows_bad [OF this, of "[]"] rows Instance show ?thesis
      by (simp add: extract_rows_unique_value_def)
  qed
next
  assume "Instance r \<in> set rest \<and> set (map fst r) \<noteq> set (map fst first_row)"
  then have "Instance r \<in> set (Instance first_row # rest)"
    and "Instance r = NotInstance \<or>
        (\<exists>r'. Instance r = Instance r' \<and> set (map fst r') \<noteq> set (map fst first_row))"
    by simp_all
  then have "\<exists>x \<in> set (Instance first_row # rest). x = NotInstance \<or>
        (\<exists>r. x = Instance r \<and> set (map fst r) \<noteq> set (map fst first_row))"
    by (rule bexI [rotated])
  from collect_rows_bad [OF this, of "[]"]
  show "extract_rows_unique_value (Instance (Instance first_row # rest)) = Inl (ValueError RowsSameKeys)"
    by (simp add: extract_rows_unique_value_def)
next
  assume a: "(\<forall>r \<in> set rs. set (map fst r) = set (map fst first_row)) \<and>
    (\<forall>k \<in> set (map fst first_row). uniform_column (first_row # rs) k)"
  let ?keys = "map fst first_row"
  let ?col = "\<lambda>k. {v. \<exists>r \<in> set (first_row # rs). map_of r k = Some v}"
  from a have "\<forall>r \<in> set (first_row # rs). set (map fst r) = set ?keys" by simp
  from collect_rows_ok [OF this, of "[]"] obtain uv where uv:
    "collect_rows ?keys (map Instance (first_row # rs)) [] = Inr uv"
    "fst ` set uv = set ?keys"
    "distinct (map fst uv)"
    "\<forall>k. set (uv_get uv k) = {v. k \<in> set ?keys \<and> v \<in> ?col k}"
    "\<forall>k. distinct (uv_get uv k)"
    by (auto simp: uv_get_def)
  have item: "uv_get uv k = v \<and> k \<in> set ?keys" if "(k, v) \<in> set uv" for k v
  proof -
    from that uv(3) have "map_of uv k = Some v" by simp
    moreover from that uv(2) have "k \<in> set ?keys" by force
    ultimately show ?thesis by (simp add: uv_get_def)
  qed
  have "\<forall>(k, v) \<in> set uv. distinct v \<and>
             (list_all is_PInt (filter (\<lambda>x. x \<noteq> PNone) v) \<or>
              list_all is_PStr (filter (\<lambda>x. x \<noteq> PNone) v))"
  proof (clarify, rule conjI)
    fix k v assume kv: "(k, v) \<in> set uv"
    from item [OF kv] uv(5) show "distinct v" by auto
    from item [OF kv] uv(4) have "set v \<subseteq> ?col k" by auto
    moreover from item [OF kv] a have "uniform_column (first_row # rs) k" by blast
    ultimately show "list_all is_PInt (filter (\<lambda>x. x \<noteq> PNone) v) \<or>
              list_all is_PStr (filter (\<lambda>x. x \<noteq> PNone) v)"
      by (rule uniform_column_values [rotated])
  qed
  from sorted_items_ok [OF this] obtain res where res:
    "sorted_items uv = Inr res" "map fst res = map fst uv"
    "\<forall>k v. map_of uv k = Some v \<longrightarrow>
       (\<exists>vs. map_of res k = Some vs \<and> sorted_wrt py_lt vs \<and> set vs = set v - {PNone})"
    by blast
  have 1: "extract_rows_unique_value (Instance (map Instance (first_row # rs))) = Inr res"
    using uv(1) res(1) by (simp add: extract_rows_unique_value_def)
  have 2: "set (map fst res) = set ?keys" "distinct (map fst res)"
    using res(2) uv(2,3) by simp_all
  have 3: "\<exists>vs. map_of res k = Some vs \<and> sorted_wrt py_lt vs \<and>
      set vs = {v. v \<noteq> PNone \<and> (\<exists>r \<in> set (first_row # rs). map_of r k = Some v)}"
    if "k \<in> set ?keys" for k
  proof -
    from that uv(2) obtain v where "(k, v) \<in> set uv" by force
    with uv(3) have m: "map_of uv k = Some v" by simp
    then have "uv_get uv k = v" by (simp add: uv_get_def)
    with uv(4) that have v: "set v = ?col k" by auto
    from res(3) m obtain vs where vs: "map_of res k = Some vs" "sorted_wrt py_lt vs"
      "set vs = set v - {PNone}"
      by blast
    from vs(3) v have "set vs = {v. v \<noteq> PNone \<and> (\<exists>r \<in> set (first_row # rs). map_of r k = Some v)}"
      by blast
    with vs(1,2) show ?thesis by blast
  qed
  from 1 2 3 show "\<exists>result. extract_rows_unique_value (Instance (map Instance (first_row # rs))) = Inr result \<and>
         set (map fst result) = set (map fst first_row) \<and> distinct (map fst result) \<and>
         (\<forall>k \<in> set (map fst first_row).
            \<exists>vs. map_of result k = Some vs \<and> sorted_wrt py_lt vs \<and>
                 set vs = {v. v \<noteq> PNone \<and> (\<exists>r \<in> set (first_row # rs). map_of r k = Some v)})"
    by blast
next
  assume a: "(\<forall>r \<in> set rs. set (map fst r) = set (map fst first_row)) \<and>
    (\<exists>k \<in> set (map fst first_row). \<not> uniform_column (first_row # rs) k)"
  let ?keys = "map fst first_row"
  from a obtain k where k: "k \<in> set ?keys" "\<not> uniform_column (first_row # rs) k"
    by blast
  from a have "\<forall>r \<in> set (first_row # rs). set (map fst r) = set ?keys" by simp
  from collect_rows_ok [OF this, of "[]"] obtain uv where uv:
    "collect_rows ?keys (map Instance (first_row # rs)) [] = Inr uv"
    "fst ` set uv = set ?keys"
    "distinct (map fst uv)"
    "\<forall>k. set (uv_get uv k) =
          {v. k \<in> set ?keys \<and> (\<exists>r \<in> set (first_row # rs). map_of r k = Some v)}"
    by (auto simp: uv_get_def)
  from k(1) uv(2) obtain v where kv: "(k, v) \<in> set uv" by force
  with uv(3) have "map_of uv k = Some v" by simp
  then have "uv_get uv k = v" by (simp add: uv_get_def)
  with uv(4) k(1) have "set v = {x. \<exists>r \<in> set (first_row # rs). map_of r k = Some x}"
    by auto
  from mixed_column_values [OF k(2) this]
  have "sorted_items uv = Inl TypeError"
    using sorted_items_mixed [OF kv] by blast
  with uv(1)
  show "extract_rows_unique_value (Instance (map Instance (first_row # rs))) = Inl TypeError"
    by (simp add: extract_rows_unique_value_def)
qed

text \<open>
  At the example of the specification, three rows with the columns \<^verbatim>\<open>a\<close> (1, 2,
  \<^verbatim>\<open>None\<close>) and \<^verbatim>\<open>b\<close> (x, x, y), at two rows of which the second lacks \<^verbatim>\<open>b\<close>,
  and at three rows whose column \<^verbatim>\<open>a\<close> holds 1, 2 and x.
\<close>

theorem extract_rows_unique_value_sorted_distinct_witness:
  "extract_rows_unique_value
     (Instance [Instance [(''a'', PInt 1), (''b'', PStr ''x'')],
                Instance [(''a'', PInt 2), (''b'', PStr ''x'')],
                Instance [(''a'', PNone), (''b'', PStr ''y'')]]) =
     Inr [(''a'', [PInt 1, PInt 2]), (''b'', [PStr ''x'', PStr ''y''])] \<and>
   sorted_wrt py_lt [PInt 1, PInt 2] \<and> sorted_wrt py_lt [PStr ''x'', PStr ''y''] \<and>
   extract_rows_unique_value
     (Instance [Instance [(''a'', PInt 1), (''b'', PStr ''x'')], Instance [(''a'', PInt 2)]]) =
     Inl (ValueError RowsSameKeys) \<and>
   extract_rows_unique_value
     (Instance [Instance [(''a'', PInt 1)], Instance [(''a'', PInt 2)],
                Instance [(''a'', PStr ''x'')]]) = Inl TypeError"
proof -
  let ?row0 = "[(''a'', PInt 1), (''b'', PStr ''x'')]"
  let ?rs = "[[(''a'', PInt 2), (''b'', PStr ''x'')], [(''a'', PNone), (''b'', PStr ''y'')]]"
  have h1: "\<forall>r \<in> set ?rs. set (map fst r) = set (map fst ?row0)"
    by auto
  have h2: "\<forall>k \<in> set (map fst ?row0). uniform_column (?row0 # ?rs) k"
    by (simp add: uniform_column_def)
  from h1 h2 extract_rows_unique_value_sorted_distinct [where first_row = ?row0 and rs = ?rs]
  obtain result where result:
    "extract_rows_unique_value (Instance (map Instance (?row0 # ?rs))) = Inr result"
    "\<forall>k \<in> set (map fst ?row0). \<exists>vs. map_of result k = Some vs \<and> sorted_wrt py_lt vs \<and>
       set vs = {v. v \<noteq> PNone \<and> (\<exists>r \<in> set (?row0 # ?rs). map_of r k = Some v)}"
    by blast
  have eval: "extract_rows_unique_value (Instance (map Instance (?row0 # ?rs))) =
      Inr [(''a'', [PInt 1, PInt 2]), (''b'', [PStr ''x'', PStr ''y''])]"
    by (simp add: extract_rows_unique_value_def py_sorted_def less_eq_char_def less_char_def)
  with result(1) have "result = [(''a'', [PInt 1, PInt 2]), (''b'', [PStr ''x'', PStr ''y''])]"
    by simp
  with result(2) have s: "sorted_wrt py_lt [PInt 1, PInt 2]" "sorted_wrt py_lt [PStr ''x'', PStr ''y'']"
    by auto
  have "Instance [(''a'', PInt 2)] \<in> set [Instance [(''a'', PInt 2)]] \<and>
      set (map fst [(''a'', PInt 2)]) \<noteq> set (map fst ?row0)"
    by auto
  with extract_rows_unique_value_sorted_distinct
    [where first_row = ?row0 and r = "[(''a'', PInt 2)]" and rest = "[Instance [(''a'', PInt 2)]]"]
  have bad: "extract_rows_unique_value (Instance [Instance ?row0, Instance [(''a'', PInt 2)]]) =
      Inl (ValueError RowsSameKeys)"
    by blast
  have m1: "\<forall>r \<in> set [[(''a'', PInt 2)], [(''a'', PStr ''x'')]].
      set (map fst r) = set (map fst [(''a'', PInt 1)])"
    by simp
  have m2: "\<exists>k \<in> set (map fst [(''a'', PInt 1)]).
      \<not> uniform_column ([(''a'', PInt 1)] # [[(''a'', PInt 2)], [(''a'', PStr ''x'')]]) k"
    by (simp add: uniform_column_def)
  from m1 m2 extract_rows_unique_value_sorted_distinct
    [where first_row = "[(''a'', PInt 1)]" and rs = "[[(''a'', PInt 2)], [(''a'', PStr ''x'')]]"]
  have mixed: "extract_rows_unique_value
      (Instance (map Instance ([(''a'', PInt 1)] # [[(''a'', PInt 2)], [(''a'', PStr ''x'')]]))) =
      Inl TypeError"
    by blast
  from eval s bad mixed show ?thesis by simp
qed

text \<open>
  Claim C7 as stated has the function return the sorted values for every list of
  dictionaries with the same keys. For two rows whose column \<^verbatim>\<open>a\<close> holds the integer 1
  and the string x, \<^verbatim>\<open>sorted\<close> compares an integer with a string and the function
  raises \<open>TypeError\<close>.
\<close>

theorem extract_rows_unique_value_mixed_counterexample:
  "extract_rows_unique_value
     (Instance [Instance [(''a'', PInt 1)], Instance [(''a'', PStr ''x'')]]) = Inl TypeError"
  by (simp add: extract_rows_unique_value_def py_sorted_def)

end
